theory Spec2Isabelle
  imports Complex_Main "HOL-Library.Word"
begin

section \<open>Failures\<close>

text \<open>
  The program signals every construction-time failure by throwing
  \<^verbatim>\<open>std::runtime_error\<close> with a message. The standard library adds
  \<^verbatim>\<open>std::out_of_range\<close> (thrown by \<^verbatim>\<open>substr\<close>), and C++ leaves some
  operations without a defined result: reading a string past its end, dereferencing a
  null pointer, overflowing a signed counter. Each of these is a value of the type
  \<open>failure\<close>, and a fallible function returns \<open>failure + 'a\<close>.
\<close>

datatype failure = Runtime_error string | Out_of_range | Undefined_behaviour

section \<open>Text utilities\<close>

text \<open>
  A \<^verbatim>\<open>std::string\<close> is a list of bytes and a \<^verbatim>\<open>size_t\<close> is a natural number
  below \<open>2 ^ 64\<close>; \<^verbatim>\<open>std::string::npos\<close> is the largest of them. No string is as
  long as \<open>npos\<close>.
\<close>

definition npos :: nat where
  "npos = 2 ^ 64 - 1"

definition size_t_dec :: "nat \<Rightarrow> nat" where
  \<comment> \<open>\<^verbatim>\<open>n - 1\<close> on \<^verbatim>\<open>size_t\<close>: zero wraps around to \<open>npos\<close>.\<close>
  "size_t_dec n = (if n = 0 then npos else n - 1)"

definition subscript :: "string \<Rightarrow> nat \<Rightarrow> failure + char" where
  \<comment> \<open>\<^verbatim>\<open>s[i]\<close>: the character at \<open>i\<close>, the terminating null at \<open>i = size\<close>,
      undefined beyond.\<close>
  "subscript s i =
     (if i < length s then Inr (s ! i)
      else if i = length s then Inr (CHR 0x00)
      else Inl Undefined_behaviour)"

definition substr_from :: "string \<Rightarrow> nat \<Rightarrow> failure + string" where
  \<comment> \<open>\<^verbatim>\<open>s.substr(pos)\<close>\<close>
  "substr_from s pos = (if pos > length s then Inl Out_of_range else Inr (drop pos s))"

definition substr :: "string \<Rightarrow> nat \<Rightarrow> nat \<Rightarrow> failure + string" where
  \<comment> \<open>\<^verbatim>\<open>s.substr(pos, n)\<close>\<close>
  "substr s pos n =
     (if pos > length s then Inl Out_of_range else Inr (take n (drop pos s)))"

fun find_from :: "string \<Rightarrow> char \<Rightarrow> nat \<Rightarrow> nat" where
  "find_from [] c i = npos"
| "find_from (x # xs) c i = (if x = c then i else find_from xs c (Suc i))"

definition find_first_of :: "string \<Rightarrow> char \<Rightarrow> nat" where
  \<comment> \<open>\<^verbatim>\<open>text.find_first_of(c)\<close>: the first index holding \<open>c\<close>, or \<open>npos\<close>.\<close>
  "find_first_of s c = find_from s c 0"

definition starts_with :: "string \<Rightarrow> string \<Rightarrow> bool" where
  "starts_with s p = (take (length p) s = p)"

definition tolower :: "char \<Rightarrow> char" where
  \<comment> \<open>\<^verbatim>\<open>std::tolower\<close> in the C locale: only \<open>A\<close> to \<open>Z\<close> change.\<close>
  "tolower c =
     (case map_of (zip ''ABCDEFGHIJKLMNOPQRSTUVWXYZ'' ''abcdefghijklmnopqrstuvwxyz'') c of
        None \<Rightarrow> c
      | Some l \<Rightarrow> l)"

definition s2lower :: "string \<Rightarrow> string" where
  "s2lower str = map tolower str"

definition isWhiteSpace :: "char \<Rightarrow> bool" where
  "isWhiteSpace c = (c = CHR '' '' \<or> c = CHR 0x0A \<or> c = CHR 0x0D \<or> c = CHR 0x09)"

function lStripNewlines_loop :: "string \<Rightarrow> nat \<Rightarrow> char \<Rightarrow> failure + string" where
  "lStripNewlines_loop text i c =
     (if isWhiteSpace c then
        (case subscript text (i + 1) of
           Inl e \<Rightarrow> Inl e
         | Inr c' \<Rightarrow>
             if i + 1 \<ge> length text then Inr []
             else lStripNewlines_loop text (i + 1) c')
      else substr_from text i)"
  by pat_completeness auto
termination
  by (relation "measure (\<lambda>(text, i, c). length text - i)") auto

definition lStripNewlines :: "string \<Rightarrow> failure + string" where
  "lStripNewlines text =
     (case subscript text 0 of
        Inl e \<Rightarrow> Inl e
      | Inr c \<Rightarrow> lStripNewlines_loop text 0 c)"

definition splitAt :: "string \<Rightarrow> nat \<Rightarrow> failure + (string \<times> string)" where
  "splitAt text i =
     (if i = 0 then
        (case substr_from text 1 of Inl e \<Rightarrow> Inl e | Inr b \<Rightarrow> Inr ([], b))
      else if i = npos then Inr (text, [])
      else if i + 1 = length text then
        (case substr text 0 i of Inl e \<Rightarrow> Inl e | Inr a \<Rightarrow> Inr (a, []))
      else if i + 1 > length text then Inr (text, [])
      else
        (case substr text 0 i of
           Inl e \<Rightarrow> Inl e
         | Inr a \<Rightarrow>
             (case substr_from text (i + 1) of Inl e \<Rightarrow> Inl e | Inr b \<Rightarrow> Inr (a, b))))"

definition splitOnFirst :: "string \<Rightarrow> char \<Rightarrow> failure + (string \<times> string)" where
  "splitOnFirst text c = splitAt text (find_first_of text c)"

definition splitFirstLine :: "string \<Rightarrow> failure + (string \<times> string)" where
  "splitFirstLine text = splitOnFirst text (CHR 0x0A)"

function stripWhitespace_start :: "string \<Rightarrow> nat \<Rightarrow> char \<Rightarrow> failure + nat option" where
  \<comment> \<open>The first loop: \<open>None\<close> is its early \<^verbatim>\<open>return ""\<close>, \<open>Some start\<close> its exit.\<close>
  "stripWhitespace_start str start c =
     (if isWhiteSpace c then
        (case subscript str (start + 1) of
           Inl e \<Rightarrow> Inl e
         | Inr c' \<Rightarrow>
             if start + 1 \<ge> length str then Inr None
             else stripWhitespace_start str (start + 1) c')
      else Inr (Some start))"
  by pat_completeness auto
termination
  by (relation "measure (\<lambda>(str, start, c). length str - start)") auto

function stripWhitespace_end :: "string \<Rightarrow> nat \<Rightarrow> char \<Rightarrow> failure + string" where
  \<comment> \<open>The second loop, with the \<^verbatim>\<open>return\<close> that follows it.\<close>
  "stripWhitespace_end rem e c =
     (if isWhiteSpace c then
        (case subscript rem (size_t_dec e) of
           Inl x \<Rightarrow> Inl x
         | Inr c' \<Rightarrow>
             if size_t_dec e = 0 \<or> size_t_dec e \<ge> length rem then Inr []
             else stripWhitespace_end rem (size_t_dec e) c')
      else substr rem 0 (e + 1))"
  by pat_completeness auto
termination
  by (relation "measure (\<lambda>(rem, e, c). if e = 0 then 2 ^ 64 else e)")
     (auto simp: size_t_dec_def npos_def)

definition stripWhitespace :: "string \<Rightarrow> failure + string" where
  "stripWhitespace str =
     (case subscript str 0 of
        Inl x \<Rightarrow> Inl x
      | Inr c \<Rightarrow>
          (case stripWhitespace_start str 0 c of
             Inl x \<Rightarrow> Inl x
           | Inr None \<Rightarrow> Inr []
           | Inr (Some start) \<Rightarrow>
               (case substr_from str start of
                  Inl x \<Rightarrow> Inl x
                | Inr rem \<Rightarrow>
                    (case subscript rem (size_t_dec (length rem)) of
                       Inl x \<Rightarrow> Inl x
                     | Inr c' \<Rightarrow> stripWhitespace_end rem (size_t_dec (length rem)) c'))))"


section \<open>The graphics driver and the window\<close>

text \<open>
  The graphics driver and the windowing library are collaborators outside the program.
  The model records every call the program makes to them, in order, with its arguments;
  what the driver answers (the names it hands out, the compile status of a shader, the
  location of a uniform) is part of the driver's state.
\<close>

type_synonym GLuint = "32 word"

datatype shader_type =
  GL_VERTEX_SHADER | GL_FRAGMENT_SHADER | GL_COMPUTE_SHADER
| GL_GEOMETRY_SHADER | GL_TESS_CONTROL_SHADER | GL_TESS_EVALUATION_SHADER

datatype PrimitiveFormat = Triangles | TriangleFan | TriangleStrip | Lines | LineStrip

datatype GLenum =
  GL_FLOAT | GL_UNSIGNED_INT | GL_ARRAY_BUFFER | GL_ELEMENT_ARRAY_BUFFER | GL_STATIC_DRAW
| GL_COMPILE_STATUS

datatype buffer_bit = GL_COLOR_BUFFER_BIT | GL_DEPTH_BUFFER_BIT | GL_STENCIL_BUFFER_BIT

datatype key =
  GLFW_KEY_W | GLFW_KEY_A | GLFW_KEY_S | GLFW_KEY_D | GLFW_KEY_Q | GLFW_KEY_E
| GLFW_KEY_LEFT | GLFW_KEY_RIGHT | GLFW_KEY_UP | GLFW_KEY_DOWN

text \<open>
  The vector types of the mathematics library. Its \<^verbatim>\<open>float\<close> is modelled by the
  real numbers: rounding is not part of the model. A matrix is its four columns, as the
  library stores it; a quaternion is written \<open>Quat w x y z\<close>.
\<close>

datatype vec2 = Vec2 real real
datatype vec3 = Vec3 (v3x: real) (v3y: real) (v3z: real)
datatype vec4 = Vec4 (v4x: real) (v4y: real) (v4z: real) (v4w: real)
datatype quat = Quat (qw: real) (qx: real) (qy: real) (qz: real)
datatype mat4 = Mat4 (col0: vec4) (col1: vec4) (col2: vec4) (col3: vec4)

record Vertex =
  v_position :: vec4
  v_color :: vec4
  textureCoords :: vec2
  normals :: vec4

datatype buffer_data = VertexData "Vertex list" | IndexData "32 word list"

datatype call =
  WindowShouldClose
| PollEvents
| GetKey key
| SwapBuffers
| CreateShader shader_type
| ShaderSource GLuint string
| CompileShader GLuint
| GetShaderiv GLuint GLenum
| CreateVertexArrays nat
| CreateBuffers nat
| BindBuffer GLenum GLuint
| NamedBufferData GLuint nat buffer_data GLenum
| VertexArrayAttribBinding GLuint nat nat
| VertexArrayAttribFormat GLuint nat nat GLenum bool nat
| VertexArrayVertexBuffer GLuint nat GLuint nat nat
| VertexArrayElementBuffer GLuint GLuint
| EnableVertexArrayAttrib GLuint nat
| Clear "buffer_bit list"
| BindVertexArray GLuint
| UseProgram GLuint
| GetUniformLocation GLuint string
| Uniform4fv int nat vec4
| UniformMatrix4fv int nat bool mat4
| DrawElements PrimitiveFormat int GLenum

record driver =
  calls :: "call list"
  next_name :: GLuint
  compile_status :: "shader_type \<Rightarrow> string \<Rightarrow> bool"
  uniform_location :: "GLuint \<Rightarrow> string \<Rightarrow> int"

definition emit :: "call list \<Rightarrow> driver \<Rightarrow> driver" where
  "emit cs d = d\<lparr>calls := calls d @ cs\<rparr>"

definition fresh_names :: "nat \<Rightarrow> driver \<Rightarrow> driver" where
  \<comment> \<open>The driver hands out \<open>n\<close> names it has not used before.\<close>
  "fresh_names n d = d\<lparr>next_name := next_name d + of_nat n\<rparr>"

section \<open>Shader source parsing and compilation\<close>

definition sTypeFromName :: "string \<Rightarrow> failure + shader_type" where
  "sTypeFromName name =
     (let ln = s2lower name in
      if ln = ''vertex'' then Inr GL_VERTEX_SHADER
      else if ln = ''fragment'' then Inr GL_FRAGMENT_SHADER
      else if ln = ''compute'' then Inr GL_COMPUTE_SHADER
      else if ln = ''geometry'' then Inr GL_GEOMETRY_SHADER
      else if ln = ''tess-control'' then Inr GL_TESS_CONTROL_SHADER
      else if ln = ''tess-evaluation'' then Inr GL_TESS_EVALUATION_SHADER
      else Inl (Runtime_error (''Unknown shader type '' @ name)))"

definition c_str :: "string \<Rightarrow> string" where
  \<comment> \<open>What a reader of \<^verbatim>\<open>src.c_str()\<close> sees when no length is passed: the bytes
      before the first null.\<close>
  "c_str s = takeWhile (\<lambda>c. c \<noteq> CHR 0x00) s"

definition compileShader :: "string \<Rightarrow> shader_type \<Rightarrow> string \<Rightarrow> driver \<Rightarrow> failure + (GLuint \<times> driver)" where
  \<comment> \<open>The second half of \<^verbatim>\<open>createShader\<close>: create the shader object, hand over the
      source, compile, and query the status.\<close>
  "compileShader path stype src d =
     (let sh = next_name d;
          d1 = emit [CreateShader stype, ShaderSource sh (c_str src), CompileShader sh,
                     GetShaderiv sh GL_COMPILE_STATUS] (fresh_names 1 d)
      in if \<not> compile_status d stype (c_str src) then
           Inl (Runtime_error (''Failed to compile shader '' @ path))
         else Inr (sh, d1))"

definition createShader :: "(string \<Rightarrow> string) \<Rightarrow> string \<Rightarrow> driver \<Rightarrow> failure + (GLuint \<times> driver)" where
  \<comment> \<open>\<open>readFile\<close> is the file system: the contents found under a path.\<close>
  "createShader readFile path d =
     (case lStripNewlines (readFile path) of
        Inl x \<Rightarrow> Inl x
      | Inr srcuf \<Rightarrow>
          (case splitFirstLine srcuf of
             Inl x \<Rightarrow> Inl x
           | Inr (l, src) \<Rightarrow>
               if \<not> starts_with l ''#type '' then
                 Inl (Runtime_error (''Failed to read shader '' @ path))
               else
                 (case substr_from l 6 of
                    Inl x \<Rightarrow> Inl x
                  | Inr rest \<Rightarrow>
                      (case stripWhitespace rest of
                         Inl x \<Rightarrow> Inl x
                       | Inr type \<Rightarrow>
                           (case sTypeFromName type of
                              Inl x \<Rightarrow> Inl x
                            | Inr stype \<Rightarrow> compileShader path stype src d)))))"

section \<open>Vectors, quaternions and matrices\<close>

fun v3_add :: "vec3 \<Rightarrow> vec3 \<Rightarrow> vec3" where
  "v3_add (Vec3 a b c) (Vec3 a' b' c') = Vec3 (a + a') (b + b') (c + c')"

fun v3_sub :: "vec3 \<Rightarrow> vec3 \<Rightarrow> vec3" where
  "v3_sub (Vec3 a b c) (Vec3 a' b' c') = Vec3 (a - a') (b - b') (c - c')"

fun v3_scale :: "real \<Rightarrow> vec3 \<Rightarrow> vec3" where
  "v3_scale k (Vec3 a b c) = Vec3 (k * a) (k * b) (k * c)"

fun v3_neg :: "vec3 \<Rightarrow> vec3" where
  "v3_neg (Vec3 a b c) = Vec3 (- a) (- b) (- c)"

fun cross :: "vec3 \<Rightarrow> vec3 \<Rightarrow> vec3" where
  "cross (Vec3 a b c) (Vec3 a' b' c') =
     Vec3 (b * c' - b' * c) (c * a' - c' * a) (a * b' - a' * b)"

fun v4_add :: "vec4 \<Rightarrow> vec4 \<Rightarrow> vec4" where
  "v4_add (Vec4 a b c d) (Vec4 a' b' c' d') = Vec4 (a + a') (b + b') (c + c') (d + d')"

fun v4_scale :: "vec4 \<Rightarrow> real \<Rightarrow> vec4" where
  "v4_scale (Vec4 a b c d) k = Vec4 (a * k) (b * k) (c * k) (d * k)"

fun vec3_of_vec4 :: "vec4 \<Rightarrow> vec3" where
  "vec3_of_vec4 (Vec4 a b c d) = Vec3 a b c"

fun mat_vec :: "mat4 \<Rightarrow> vec4 \<Rightarrow> vec4" where
  \<comment> \<open>\<^verbatim>\<open>m * v\<close>: the linear combination of the columns.\<close>
  "mat_vec (Mat4 c0 c1 c2 c3) (Vec4 a b c d) =
     v4_add (v4_add (v4_add (v4_scale c0 a) (v4_scale c1 b)) (v4_scale c2 c)) (v4_scale c3 d)"

fun mat_mul :: "mat4 \<Rightarrow> mat4 \<Rightarrow> mat4" where
  \<comment> \<open>\<^verbatim>\<open>m1 * m2\<close>: column \<open>j\<close> of the product is \<open>m1\<close> applied to column \<open>j\<close> of \<open>m2\<close>.\<close>
  "mat_mul m1 (Mat4 c0 c1 c2 c3) =
     Mat4 (mat_vec m1 c0) (mat_vec m1 c1) (mat_vec m1 c2) (mat_vec m1 c3)"

definition identity_mat4 :: mat4 where
  "identity_mat4 = Mat4 (Vec4 1 0 0 0) (Vec4 0 1 0 0) (Vec4 0 0 1 0) (Vec4 0 0 0 1)"

fun glm_scale :: "mat4 \<Rightarrow> vec3 \<Rightarrow> mat4" where
  \<comment> \<open>\<^verbatim>\<open>glm::scale(m, v)\<close>: the first three columns of \<open>m\<close>, each scaled.\<close>
  "glm_scale (Mat4 c0 c1 c2 c3) (Vec3 a b c) =
     Mat4 (v4_scale c0 a) (v4_scale c1 b) (v4_scale c2 c) c3"

fun glm_translate :: "mat4 \<Rightarrow> vec3 \<Rightarrow> mat4" where
  \<comment> \<open>\<^verbatim>\<open>glm::translate(m, v)\<close>: only the last column changes, to
      \<^verbatim>\<open>m[0] * v[0] + m[1] * v[1] + m[2] * v[2] + m[3]\<close>.\<close>
  "glm_translate (Mat4 c0 c1 c2 c3) (Vec3 a b c) =
     Mat4 c0 c1 c2 (v4_add (v4_add (v4_add (v4_scale c0 a) (v4_scale c1 b)) (v4_scale c2 c)) c3)"

fun toMat4 :: "quat \<Rightarrow> mat4" where
  \<comment> \<open>\<^verbatim>\<open>glm::toMat4(q)\<close>\<close>
  "toMat4 (Quat w x y z) =
     Mat4 (Vec4 (1 - 2 * (y * y + z * z)) (2 * (x * y + w * z)) (2 * (x * z - w * y)) 0)
          (Vec4 (2 * (x * y - w * z)) (1 - 2 * (x * x + z * z)) (2 * (y * z + w * x)) 0)
          (Vec4 (2 * (x * z + w * y)) (2 * (y * z - w * x)) (1 - 2 * (x * x + y * y)) 0)
          (Vec4 0 0 0 1)"

fun conjugate :: "quat \<Rightarrow> quat" where
  "conjugate (Quat w x y z) = Quat w (- x) (- y) (- z)"

fun quat_dot :: "quat \<Rightarrow> quat \<Rightarrow> real" where
  "quat_dot (Quat w x y z) (Quat w' x' y' z') = x * x' + y * y' + z * z' + w * w'"

fun quat_div :: "quat \<Rightarrow> real \<Rightarrow> quat" where
  "quat_div (Quat w x y z) s = Quat (w / s) (x / s) (y / s) (z / s)"

definition inverse_q :: "quat \<Rightarrow> quat" where
  \<comment> \<open>\<^verbatim>\<open>glm::inverse(q)\<close>\<close>
  "inverse_q q = quat_div (conjugate q) (quat_dot q q)"

fun quat_mul :: "quat \<Rightarrow> quat \<Rightarrow> quat" where
  \<comment> \<open>\<^verbatim>\<open>p * q\<close>, as \<^verbatim>\<open>p *= q\<close> computes it.\<close>
  "quat_mul (Quat pw px py pz) (Quat w x y z) =
     Quat (pw * w - px * x - py * y - pz * z)
          (pw * x + px * w + py * z - pz * y)
          (pw * y + py * w + pz * x - px * z)
          (pw * z + pz * w + px * y - py * x)"

definition quat_vec3 :: "quat \<Rightarrow> vec3 \<Rightarrow> vec3" where
  \<comment> \<open>\<^verbatim>\<open>q * v\<close> for a three-component vector.\<close>
  "quat_vec3 q v =
     (let QuatVector = Vec3 (qx q) (qy q) (qz q);
          uv = cross QuatVector v;
          uuv = cross QuatVector uv
      in v3_add v (v3_scale 2 (v3_add (v3_scale (qw q) uv) uuv)))"

fun rotate_q :: "quat \<Rightarrow> vec4 \<Rightarrow> vec4" where
  \<comment> \<open>\<^verbatim>\<open>glm::rotate(q, v)\<close> for a four-component vector: \<^verbatim>\<open>q * v\<close>.\<close>
  "rotate_q q (Vec4 a b c d) =
     (case quat_vec3 q (Vec3 a b c) of Vec3 a' b' c' \<Rightarrow> Vec4 a' b' c' d)"

definition radians :: "real \<Rightarrow> real" where
  "radians deg = deg * (pi / 180)"

definition angleAxis :: "real \<Rightarrow> vec3 \<Rightarrow> quat" where
  "angleAxis angle v =
     (case v3_scale (sin (angle * 0.5)) v of Vec3 a b c \<Rightarrow> Quat (cos (angle * 0.5)) a b c)"

definition perspective :: "real \<Rightarrow> real \<Rightarrow> real \<Rightarrow> real \<Rightarrow> mat4" where
  \<comment> \<open>\<^verbatim>\<open>glm::perspective\<close> in the library's default configuration (right-handed, depth
      from \<open>-1\<close> to \<open>1\<close>).\<close>
  "perspective fovy aspect zNear zFar =
     (let tanHalfFovy = tan (fovy / 2) in
      Mat4 (Vec4 (1 / (aspect * tanHalfFovy)) 0 0 0)
           (Vec4 0 (1 / tanHalfFovy) 0 0)
           (Vec4 0 0 (- (zFar + zNear) / (zFar - zNear)) (- 1))
           (Vec4 0 0 (- (2 * zFar * zNear) / (zFar - zNear)) 0))"

section \<open>Transforms and the model matrix\<close>

record Transform =
  position :: vec3
  rotation :: quat
  scale :: vec3

definition rotate_m4 :: "mat4 \<Rightarrow> quat \<Rightarrow> mat4" where
  "rotate_m4 mat q = mat_mul (toMat4 q) mat"

definition createModelMatrix :: "Transform \<Rightarrow> mat4" where
  "createModelMatrix t =
     glm_translate (rotate_m4 (glm_scale identity_mat4 (scale t)) (rotation t)) (position t)"

section \<open>The camera\<close>

definition pMatrix :: mat4 where
  "pMatrix = perspective (radians 90) 1 0.1 100"

record Camera =
  cam_position :: vec3
  lookDirection :: quat

definition calcVPMatrix :: "Camera \<Rightarrow> mat4" where
  "calcVPMatrix camera =
     mat_mul pMatrix (glm_translate (toMat4 (lookDirection camera)) (v3_neg (cam_position camera)))"

record window =
  should_close :: bool
  key_held :: "key \<Rightarrow> bool"
  pending :: "(bool \<times> (key \<Rightarrow> bool)) list"

definition glfwWindowShouldClose :: "window \<Rightarrow> bool" where
  "glfwWindowShouldClose win = should_close win"

definition glfwPollEvents :: "window \<Rightarrow> window" where
  \<comment> \<open>Processing the next batch of pending events: a close request sets the flag, and
      the batch leaves the keys in a new state.\<close>
  "glfwPollEvents win =
     (case pending win of
        [] \<Rightarrow> win
      | (cl, ks) # rest \<Rightarrow>
          \<lparr>should_close = should_close win \<or> cl, key_held = ks, pending = rest\<rparr>)"

definition glfwGetKey :: "window \<Rightarrow> key \<Rightarrow> int" where
  \<comment> \<open>\<^verbatim>\<open>GLFW_PRESS\<close> is 1 and \<^verbatim>\<open>GLFW_RELEASE\<close> is 0.\<close>
  "glfwGetKey win k = (if key_held win k then 1 else 0)"

definition move :: "Camera \<Rightarrow> vec3 \<Rightarrow> Camera" where
  \<comment> \<open>\<^verbatim>\<open>camera->position += v\<close>\<close>
  "move camera v = camera\<lparr>cam_position := v3_add (cam_position camera) v\<rparr>"

definition move_back :: "Camera \<Rightarrow> vec3 \<Rightarrow> Camera" where
  \<comment> \<open>\<^verbatim>\<open>camera->position -= v\<close>\<close>
  "move_back camera v = camera\<lparr>cam_position := v3_sub (cam_position camera) v\<rparr>"

definition turn :: "Camera \<Rightarrow> quat \<Rightarrow> Camera" where
  \<comment> \<open>\<^verbatim>\<open>camera->lookDirection *= q\<close>\<close>
  "turn camera q = camera\<lparr>lookDirection := quat_mul (lookDirection camera) q\<rparr>"

definition updateCamera :: "window \<Rightarrow> Camera \<Rightarrow> Camera" where
  "updateCamera win camera =
     (let cameraForward = vec3_of_vec4 (rotate_q (inverse_q (lookDirection camera)) (Vec4 0 0 (- 1) 1));
          cameraRight = vec3_of_vec4 (rotate_q (inverse_q (lookDirection camera)) (Vec4 1 0 0 1));
          cameraUp = vec3_of_vec4 (rotate_q (inverse_q (lookDirection camera)) (Vec4 0 1 0 1));
          c1 = (if glfwGetKey win GLFW_KEY_W \<noteq> 0
                then move camera (v3_scale 0.05 cameraForward) else camera);
          c2 = (if glfwGetKey win GLFW_KEY_A \<noteq> 0
                then move_back c1 (v3_scale 0.05 (Vec3 (v3x cameraRight) 0 (v3z cameraRight)))
                else c1);
          c3 = (if glfwGetKey win GLFW_KEY_S \<noteq> 0
                then move_back c2 (v3_scale 0.05 cameraForward) else c2);
          c4 = (if glfwGetKey win GLFW_KEY_D \<noteq> 0
                then move c3 (v3_scale 0.05 cameraRight) else c3);
          c5 = (if glfwGetKey win GLFW_KEY_Q \<noteq> 0
                then move c4 (v3_scale 0.05 cameraUp) else c4);
          c6 = (if glfwGetKey win GLFW_KEY_E \<noteq> 0
                then move_back c5 (v3_scale 0.05 cameraUp) else c5);
          c7 = (if glfwGetKey win GLFW_KEY_LEFT \<noteq> 0
                then turn c6 (angleAxis (radians (- 0.5)) (Vec3 0 1 0)) else c6);
          c8 = (if glfwGetKey win GLFW_KEY_RIGHT \<noteq> 0
                then turn c7 (angleAxis (radians 0.5) (Vec3 0 1 0)) else c7);
          c9 = (if glfwGetKey win GLFW_KEY_UP \<noteq> 0
                then turn c8 (angleAxis (radians (- 0.5)) cameraRight) else c8)
      in if glfwGetKey win GLFW_KEY_DOWN \<noteq> 0
         then turn c9 (angleAxis (radians 0.5) cameraRight) else c9)"

definition updateCamera_calls :: "call list" where
  \<comment> \<open>The key queries of \<^verbatim>\<open>updateCamera\<close>, in the order it makes them.\<close>
  "updateCamera_calls =
     map GetKey [GLFW_KEY_W, GLFW_KEY_A, GLFW_KEY_S, GLFW_KEY_D, GLFW_KEY_Q, GLFW_KEY_E,
                 GLFW_KEY_LEFT, GLFW_KEY_RIGHT, GLFW_KEY_UP, GLFW_KEY_DOWN]"


section \<open>Objects on the heap\<close>

text \<open>
  Meshes, shader programs, materials and game objects are allocated with \<^verbatim>\<open>new\<close>
  and never freed, and the program passes pointers to them around. The heap holds one
  store per type; an address is an index into its store, \<^verbatim>\<open>new\<close> appends to it, and
  a pointer is either null (\<open>None\<close>) or an address. Dereferencing a pointer that is null
  or points at nothing has no defined result.
\<close>

type_synonym ptr = "nat option"

record Mesh =
  vertices :: "Vertex list"
  indices :: "32 word list"
  primitiveFormat :: PrimitiveFormat
  vao :: GLuint
  vbo :: GLuint
  ibo :: GLuint

record ShaderProgram =
  handle :: GLuint

record Material =
  shader :: ptr
  textures :: "ptr list"
  color :: vec4

record MeshRenderer =
  mesh :: ptr
  material :: ptr

record GameObject =
  meshRenderer :: MeshRenderer
  transform :: Transform

record heap =
  gameObjects :: "GameObject list"
  meshes :: "Mesh list"
  materials :: "Material list"
  shaderPrograms :: "ShaderProgram list"

definition deref :: "'a list \<Rightarrow> ptr \<Rightarrow> failure + 'a" where
  "deref store p =
     (case p of
        None \<Rightarrow> Inl Undefined_behaviour
      | Some a \<Rightarrow> if a < length store then Inr (store ! a) else Inl Undefined_behaviour)"

definition assign_transform :: "heap \<Rightarrow> ptr \<Rightarrow> Transform \<Rightarrow> failure + heap" where
  \<comment> \<open>\<^verbatim>\<open>go->transform = t\<close>\<close>
  "assign_transform h go t =
     (case deref (gameObjects h) go of
        Inl x \<Rightarrow> Inl x
      | Inr obj \<Rightarrow>
          Inr (h\<lparr>gameObjects := (gameObjects h)[the go := obj\<lparr>transform := t\<rparr>]\<rparr>))"

definition assign_color :: "heap \<Rightarrow> ptr \<Rightarrow> vec4 \<Rightarrow> failure + heap" where
  \<comment> \<open>\<^verbatim>\<open>mat->color = c\<close>\<close>
  "assign_color h mat c =
     (case deref (materials h) mat of
        Inl x \<Rightarrow> Inl x
      | Inr m \<Rightarrow> Inr (h\<lparr>materials := (materials h)[the mat := m\<lparr>color := c\<rparr>]\<rparr>))"

definition createGameObject :: "heap \<Rightarrow> ptr \<Rightarrow> ptr \<Rightarrow> ptr \<times> heap" where
  "createGameObject h m mat =
     (Some (length (gameObjects h)),
      h\<lparr>gameObjects := gameObjects h @
           [\<lparr>meshRenderer = \<lparr>mesh = m, material = mat\<rparr>,
             transform = \<lparr>position = Vec3 0 0 0, rotation = Quat 1 0 0 0, scale = Vec3 1 1 1\<rparr>\<rparr>]\<rparr>)"

definition clone :: "heap \<Rightarrow> ptr \<Rightarrow> failure + (ptr \<times> heap)" where
  \<comment> \<open>\<^verbatim>\<open>new GameObject(*go)\<close>: a new object, every member copied.\<close>
  "clone h go =
     (case deref (gameObjects h) go of
        Inl x \<Rightarrow> Inl x
      | Inr obj \<Rightarrow> Inr (Some (length (gameObjects h)), h\<lparr>gameObjects := gameObjects h @ [obj]\<rparr>))"

definition INT_MAX :: nat where
  "INT_MAX = 2147483647"

function createGameObjects_loop ::
  "ptr \<Rightarrow> nat \<Rightarrow> nat \<Rightarrow> ptr list \<Rightarrow> heap \<Rightarrow> failure + (ptr list \<times> heap)" where
  \<comment> \<open>The loop of \<^verbatim>\<open>createGameObjects\<close>. Its counter \<open>i\<close> is an \<^verbatim>\<open>int\<close>:
      incrementing it at \<open>INT_MAX\<close> has no defined result.\<close>
  "createGameObjects_loop prefab count i gos h =
     (if i < count then
        (case clone h prefab of
           Inl x \<Rightarrow> Inl x
         | Inr (p, h') \<Rightarrow>
             if i = INT_MAX then Inl Undefined_behaviour
             else createGameObjects_loop prefab count (i + 1) (gos[i := p]) h')
      else Inr (gos, h))"
  by pat_completeness auto
termination
  by (relation "measure (\<lambda>(prefab, count, i, gos, h). count - i)") auto

definition createGameObjects :: "heap \<Rightarrow> ptr \<Rightarrow> nat \<Rightarrow> failure + (ptr list \<times> heap)" where
  "createGameObjects h prefab count =
     createGameObjects_loop prefab count 0 (replicate count None) h"

section \<open>Mesh construction\<close>

text \<open>
  The sizes of the types the vertex layout is computed from. A \<^verbatim>\<open>float\<close> has four
  bytes; the vector types hold their components and nothing else, and \<^verbatim>\<open>Vertex\<close>
  holds its four members one after the other, all aligned as \<^verbatim>\<open>float\<close> is.
\<close>

definition sizeof_float :: nat where
  "sizeof_float = 4"

definition sizeof_uint32_t :: nat where
  "sizeof_uint32_t = 4"

definition sizeof_vec2 :: nat where
  "sizeof_vec2 = 2 * sizeof_float"

definition sizeof_vec4 :: nat where
  "sizeof_vec4 = 4 * sizeof_float"

definition sizeof_Vertex :: nat where
  "sizeof_Vertex = sizeof_vec4 + sizeof_vec4 + sizeof_vec2 + sizeof_vec4"

definition offsetof_Vertex :: "nat list" where
  \<comment> \<open>The byte offsets of \<open>position\<close>, \<open>color\<close>, \<open>textureCoords\<close> and \<open>normals\<close>
      in \<^verbatim>\<open>Vertex\<close>.\<close>
  "offsetof_Vertex =
     [0, sizeof_vec4, sizeof_vec4 + sizeof_vec4, sizeof_vec4 + sizeof_vec4 + sizeof_vec2]"

definition createMesh_calls ::
  "GLuint \<Rightarrow> GLuint \<Rightarrow> GLuint \<Rightarrow> Vertex list \<Rightarrow> 32 word list \<Rightarrow> call list" where
  \<comment> \<open>The calls of \<^verbatim>\<open>createMesh\<close>, in its order, for the names the driver gave.\<close>
  "createMesh_calls va vb ib vs is =
     [CreateVertexArrays 1,
      CreateBuffers 2,
      BindBuffer GL_ARRAY_BUFFER vb,
      BindBuffer GL_ELEMENT_ARRAY_BUFFER ib,
      NamedBufferData vb (length vs * sizeof_Vertex) (VertexData vs) GL_STATIC_DRAW,
      NamedBufferData ib (length is * sizeof_uint32_t) (IndexData is) GL_STATIC_DRAW,
      VertexArrayAttribBinding va 0 0,
      VertexArrayAttribBinding va 1 0,
      VertexArrayAttribBinding va 2 0,
      VertexArrayAttribBinding va 3 0,
      VertexArrayAttribFormat va 0 4 GL_FLOAT False 0,
      VertexArrayAttribFormat va 1 4 GL_FLOAT False (4 * sizeof_float),
      VertexArrayAttribFormat va 2 2 GL_FLOAT False (8 * sizeof_float),
      VertexArrayAttribFormat va 3 4 GL_FLOAT False (10 * sizeof_float),
      VertexArrayVertexBuffer va 0 vb 0 sizeof_Vertex,
      VertexArrayElementBuffer va ib,
      EnableVertexArrayAttrib va 0,
      EnableVertexArrayAttrib va 1,
      EnableVertexArrayAttrib va 2,
      EnableVertexArrayAttrib va 3]"

definition createMesh ::
  "Vertex list \<Rightarrow> 32 word list \<Rightarrow> PrimitiveFormat \<Rightarrow> heap \<Rightarrow> driver \<Rightarrow> ptr \<times> heap \<times> driver" where
  \<comment> \<open>The driver writes one fresh name into \<open>vao\<close> and two into \<open>vbo\<close> and \<open>ibo\<close>,
      which the program takes to lie next to each other.\<close>
  "createMesh vs is fmt h d =
     (let va = next_name d; vb = next_name d + 1; ib = next_name d + 2;
          d' = emit (createMesh_calls va vb ib vs is) (fresh_names 3 d);
          m = \<lparr>vertices = vs, indices = is, primitiveFormat = fmt, vao = va, vbo = vb, ibo = ib\<rparr>
      in (Some (length (meshes h)), h\<lparr>meshes := meshes h @ [m]\<rparr>, d'))"

definition mesh_invariant :: "Mesh \<Rightarrow> bool" where
  \<comment> \<open>Every index is below the number of vertices.\<close>
  "mesh_invariant m = list_all (\<lambda>i. unat i < length (vertices m)) (indices m)"

fun attrib_formats :: "call list \<Rightarrow> (nat \<times> nat \<times> GLenum \<times> nat) list" where
  \<comment> \<open>The attribute formats a call sequence registers: index, number of components,
      component type, byte offset.\<close>
  "attrib_formats [] = []"
| "attrib_formats (VertexArrayAttribFormat va i n ty nrm off # cs) =
     (i, n, ty, off) # attrib_formats cs"
| "attrib_formats (c # cs) = attrib_formats cs"

fun vertex_strides :: "call list \<Rightarrow> nat list" where
  \<comment> \<open>The strides of the vertex buffers a call sequence binds.\<close>
  "vertex_strides [] = []"
| "vertex_strides (VertexArrayVertexBuffer va b buf off stride # cs) =
     stride # vertex_strides cs"
| "vertex_strides (c # cs) = vertex_strides cs"

section \<open>Rendering\<close>

definition to_GLsizei :: "nat \<Rightarrow> int" where
  \<comment> \<open>A \<^verbatim>\<open>size_t\<close> passed where the driver takes a signed 32-bit count.\<close>
  "to_GLsizei n = sint (word_of_nat n :: 32 word)"

text \<open>
  The driver reads a uniform's value through a pointer. A pointer of the program either
  points at a live object or at one whose lifetime has ended; reading through the
  latter has no defined result. \<^verbatim>\<open>glm::value_ptr\<close> returns a pointer into its
  argument. When the argument is a temporary (the result of a function call), it is
  destroyed at the end of the statement in which it was created, and the pointer
  dangles from then on.
\<close>

datatype 'a pointer = Live 'a | Dangling

definition value_ptr :: "mat4 \<Rightarrow> mat4 pointer" where
  \<comment> \<open>\<^verbatim>\<open>glm::value_ptr(m)\<close>\<close>
  "value_ptr m = Live m"

definition statement_ended :: "'a pointer \<Rightarrow> 'a pointer" where
  \<comment> \<open>A pointer into a temporary, seen after the statement that created the
      temporary.\<close>
  "statement_ended p = Dangling"

definition glUniform4fv :: "int \<Rightarrow> nat \<Rightarrow> vec4 pointer \<Rightarrow> driver \<Rightarrow> failure + driver" where
  "glUniform4fv location count p d =
     (case p of
        Dangling \<Rightarrow> Inl Undefined_behaviour
      | Live v \<Rightarrow> Inr (emit [Uniform4fv location count v] d))"

definition glUniformMatrix4fv ::
  "int \<Rightarrow> nat \<Rightarrow> bool \<Rightarrow> mat4 pointer \<Rightarrow> driver \<Rightarrow> failure + driver" where
  "glUniformMatrix4fv location count transposed p d =
     (case p of
        Dangling \<Rightarrow> Inl Undefined_behaviour
      | Live m \<Rightarrow> Inr (emit [UniformMatrix4fv location count transposed m] d))"

definition applyMaterial :: "heap \<Rightarrow> ptr \<Rightarrow> driver \<Rightarrow> failure + driver" where
  \<comment> \<open>The colour is read through a pointer to the member \<open>color\<close> of the material,
      a live object.\<close>
  "applyMaterial h mat d =
     (case deref (materials h) mat of
        Inl x \<Rightarrow> Inl x
      | Inr m \<Rightarrow>
          (case deref (shaderPrograms h) (shader m) of
             Inl x \<Rightarrow> Inl x
           | Inr sp \<Rightarrow>
               glUniform4fv (uniform_location d (handle sp) ''uColor'') 1 (Live (color m))
                 (emit [UseProgram (handle sp), GetUniformLocation (handle sp) ''uColor''] d)))"

definition applyTransform :: "heap \<Rightarrow> ptr \<Rightarrow> driver \<Rightarrow> failure + driver" where
  \<comment> \<open>The first statement takes \<open>m\<close> from the temporary result of
      \<open>createModelMatrix\<close>; the second statement passes \<open>m\<close> to the driver.\<close>
  "applyTransform h go d =
     (case deref (gameObjects h) go of
        Inl x \<Rightarrow> Inl x
      | Inr obj \<Rightarrow>
          (let m = statement_ended (value_ptr (createModelMatrix (transform obj))) in
           case deref (materials h) (material (meshRenderer obj)) of
             Inl x \<Rightarrow> Inl x
           | Inr mat \<Rightarrow>
               (case deref (shaderPrograms h) (shader mat) of
                  Inl x \<Rightarrow> Inl x
                | Inr sp \<Rightarrow>
                    glUniformMatrix4fv (uniform_location d (handle sp) ''uModel'') 1 False m
                      (emit [GetUniformLocation (handle sp) ''uModel''] d))))"

definition applyCamera :: "heap \<Rightarrow> Camera \<Rightarrow> ptr \<Rightarrow> driver \<Rightarrow> failure + driver" where
  \<comment> \<open>As \<open>applyTransform\<close>, with the temporary result of \<open>calcVPMatrix\<close>.\<close>
  "applyCamera h camera go d =
     (let m = statement_ended (value_ptr (calcVPMatrix camera)) in
      case deref (gameObjects h) go of
        Inl x \<Rightarrow> Inl x
      | Inr obj \<Rightarrow>
          (case deref (materials h) (material (meshRenderer obj)) of
             Inl x \<Rightarrow> Inl x
           | Inr mat \<Rightarrow>
               (case deref (shaderPrograms h) (shader mat) of
                  Inl x \<Rightarrow> Inl x
                | Inr sp \<Rightarrow>
                    glUniformMatrix4fv (uniform_location d (handle sp) ''uViewProjection'') 1 False m
                      (emit [GetUniformLocation (handle sp) ''uViewProjection''] d))))"

definition renderGameObject :: "heap \<Rightarrow> Camera \<Rightarrow> ptr \<Rightarrow> driver \<Rightarrow> failure + driver" where
  "renderGameObject h camera go d =
     (case deref (gameObjects h) go of
        Inl x \<Rightarrow> Inl x
      | Inr obj \<Rightarrow>
          (case deref (meshes h) (mesh (meshRenderer obj)) of
             Inl x \<Rightarrow> Inl x
           | Inr m \<Rightarrow>
               (case applyMaterial h (material (meshRenderer obj)) (emit [BindVertexArray (vao m)] d) of
                  Inl x \<Rightarrow> Inl x
                | Inr d1 \<Rightarrow>
                    (case applyTransform h go d1 of
                       Inl x \<Rightarrow> Inl x
                     | Inr d2 \<Rightarrow>
                         (case applyCamera h camera go d2 of
                            Inl x \<Rightarrow> Inl x
                          | Inr d3 \<Rightarrow>
                              Inr (emit [DrawElements (primitiveFormat m)
                                           (to_GLsizei (length (indices m))) GL_UNSIGNED_INT] d3))))))"

fun renderGameObjects :: "heap \<Rightarrow> Camera \<Rightarrow> ptr list \<Rightarrow> driver \<Rightarrow> failure + driver" where
  "renderGameObjects h camera [] d = Inr d"
| "renderGameObjects h camera (go # objs) d =
     (case renderGameObject h camera go d of
        Inl x \<Rightarrow> Inl x
      | Inr d' \<Rightarrow> renderGameObjects h camera objs d')"

partial_function (option) main_loop ::
  "heap \<Rightarrow> ptr list \<Rightarrow> window \<Rightarrow> Camera \<Rightarrow> driver \<Rightarrow> (failure + (window \<times> Camera \<times> driver)) option" where
  \<comment> \<open>The loop of \<^verbatim>\<open>main\<close>. It returns when the window reports that it should
      close, and not at all if that never happens.\<close>
  "main_loop h testObjs win camera d =
     (if glfwWindowShouldClose win then Some (Inr (win, camera, emit [WindowShouldClose] d))
      else
        (let win1 = glfwPollEvents win;
             camera1 = updateCamera win1 camera;
             d1 = emit ([WindowShouldClose, PollEvents] @ updateCamera_calls @
                        [Clear [GL_COLOR_BUFFER_BIT, GL_DEPTH_BUFFER_BIT, GL_STENCIL_BUFFER_BIT]]) d
         in (case renderGameObjects h camera1 testObjs d1 of
               Inl x \<Rightarrow> Some (Inl x)
             | Inr d2 \<Rightarrow> main_loop h testObjs win1 camera1 (emit [SwapBuffers] d2))))"


section \<open>What the shader parser computes\<close>

text \<open>
  The parts of a shader file, in terms of list functions: the header line is what
  stands between the leading white space of the file and the first line feed after it,
  the body is what follows that line feed. \<open>trimmed\<close> is the result of
  \<open>stripWhitespace\<close> on a string that is not empty: white space is removed at both
  ends, and a single character that white space followed is removed with it.
\<close>

definition trimmed :: "string \<Rightarrow> string" where
  "trimmed t =
     (let r = dropWhile isWhiteSpace t; core = rev (dropWhile isWhiteSpace (rev r))
      in if r \<noteq> [] \<and> isWhiteSpace (last r) \<and> length core \<le> 1 then [] else core)"

definition header_line :: "string \<Rightarrow> string" where
  "header_line s = takeWhile (\<lambda>c. c \<noteq> CHR 0x0A) (dropWhile isWhiteSpace s)"

definition shader_body :: "string \<Rightarrow> string" where
  "shader_body s = drop 1 (dropWhile (\<lambda>c. c \<noteq> CHR 0x0A) (dropWhile isWhiteSpace s))"

section \<open>Reading the record of calls\<close>

definition new_calls :: "driver \<Rightarrow> driver \<Rightarrow> call list" where
  \<comment> \<open>The calls made between the driver state \<open>d\<close> and the later state \<open>d'\<close>.\<close>
  "new_calls d d' = drop (length (calls d)) (calls d')"

definition driver0 :: driver where
  \<comment> \<open>A driver that has seen no call yet.\<close>
  "driver0 = \<lparr>calls = [], next_name = 1, compile_status = (\<lambda>ty src. True),
     uniform_location = (\<lambda>prog name. 0)\<rparr>"

definition heap0 :: heap where
  \<comment> \<open>The heap before anything is allocated.\<close>
  "heap0 = \<lparr>gameObjects = [], meshes = [], materials = [], shaderPrograms = []\<rparr>"

definition heap1 :: heap where
  \<comment> \<open>A heap with one game object, its mesh of one triangle, its material and the
      material's shader program.\<close>
  "heap1 =
     \<lparr>gameObjects =
        [\<lparr>meshRenderer = \<lparr>mesh = Some 0, material = Some 0\<rparr>,
          transform = \<lparr>position = Vec3 0 0 0, rotation = Quat 1 0 0 0, scale = Vec3 1 1 1\<rparr>\<rparr>],
      meshes =
        [\<lparr>vertices = [], indices = [0, 1, 2], primitiveFormat = Triangles,
          vao = 1, vbo = 2, ibo = 3\<rparr>],
      materials = [\<lparr>shader = Some 0, textures = replicate 32 None, color = Vec4 1 0 0 (1 / 2)\<rparr>],
      shaderPrograms = [\<lparr>handle = 7\<rparr>]\<rparr>"

section \<open>The calls of a frame without objects\<close>

definition empty_frame_calls :: "call list" where
  \<comment> \<open>One pass through the loop of \<^verbatim>\<open>main\<close> when the scene holds no object.\<close>
  "empty_frame_calls =
     [WindowShouldClose, PollEvents] @ updateCamera_calls @
     [Clear [GL_COLOR_BUFFER_BIT, GL_DEPTH_BUFFER_BIT, GL_STENCIL_BUFFER_BIT], SwapBuffers]"

definition holding :: "(key \<Rightarrow> bool) \<Rightarrow> window" where
  \<comment> \<open>A window in which the keys \<open>ks\<close> are held.\<close>
  "holding ks = \<lparr>should_close = False, key_held = ks, pending = []\<rparr>"

definition window1 :: window where
  \<comment> \<open>A window with two batches of events to come: W is pressed, then the window is
      asked to close.\<close>
  "window1 =
     \<lparr>should_close = False, key_held = (\<lambda>k. False),
      pending = [(False, \<lambda>k. k = GLFW_KEY_W), (True, \<lambda>k. False)]\<rparr>"

section \<open>The matrices the specification names\<close>

text \<open>
  The specification speaks of the matrices \<open>translate(p)\<close> and \<open>scale(s)\<close>. These are
  the usual ones: the identity with \<open>p\<close> in its last column, and the diagonal matrix of
  \<open>s\<close>. The matrix \<open>rotate(q)\<close> is \<open>toMat4 q\<close>.
\<close>

definition translation_matrix :: "vec3 \<Rightarrow> mat4" where
  "translation_matrix v =
     Mat4 (Vec4 1 0 0 0) (Vec4 0 1 0 0) (Vec4 0 0 1 0) (Vec4 (v3x v) (v3y v) (v3z v) 1)"

definition scaling_matrix :: "vec3 \<Rightarrow> mat4" where
  "scaling_matrix v =
     Mat4 (Vec4 (v3x v) 0 0 0) (Vec4 0 (v3y v) 0 0) (Vec4 0 0 (v3z v) 0) (Vec4 0 0 0 1)"

section \<open>Splitting a string at a separator\<close>

lemma find_from_absent: "c \<notin> set s \<Longrightarrow> find_from s c i = npos"
  by (induction s arbitrary: i) auto

lemma find_from_present:
  "c \<in> set s \<Longrightarrow> \<exists>k<length s. find_from s c i = i + k \<and> s ! k = c \<and> c \<notin> set (take k s)"
proof (induction s arbitrary: i)
  case Nil
  then show ?case by simp
next
  case (Cons x xs)
  show ?case
  proof (cases "x = c")
    case True
    then show ?thesis by (intro exI [of _ 0]) simp
  next
    case False
    with Cons.prems have "c \<in> set xs" by simp
    from Cons.IH [OF this, of "Suc i"] obtain k where
      "k < length xs" "find_from xs c (Suc i) = Suc i + k" "xs ! k = c" "c \<notin> set (take k xs)"
      by blast
    with False show ?thesis by (intro exI [of _ "Suc k"]) simp
  qed
qed

lemma splitAt_inside:
  assumes "k < length s" and "length s < npos"
  shows "splitAt s k = Inr (take k s, drop (Suc k) s)"
proof -
  from assms have "k \<noteq> npos" by simp
  with assms(1) show ?thesis
    by (cases s) (auto simp: splitAt_def substr_def substr_from_def)
qed

lemma splitOnFirst_present:
  assumes "c \<in> set s" and "length s < npos"
  shows "\<exists>k<length s. s ! k = c \<and> c \<notin> set (take k s) \<and>
           splitOnFirst s c = Inr (take k s, drop (Suc k) s)"
proof -
  from find_from_present [OF assms(1), of 0] obtain k where
    k: "k < length s" "find_first_of s c = k" "s ! k = c" "c \<notin> set (take k s)"
    by (auto simp: find_first_of_def)
  then have "splitOnFirst s c = Inr (take k s, drop (Suc k) s)"
    using assms(2) by (simp add: splitOnFirst_def splitAt_inside)
  with k show ?thesis by blast
qed

lemma splitOnFirst_absent:
  assumes "c \<notin> set s"
  shows "splitOnFirst s c = Inr (s, [])"
proof -
  from assms have "find_first_of s c = npos"
    by (simp add: find_first_of_def find_from_absent)
  then show ?thesis
    by (simp add: splitOnFirst_def splitAt_def npos_def)
qed

text \<open>
  Claim C10. For every string \<open>s\<close> (none is as long as \<open>npos\<close>) and every separator
  \<open>c\<close>: if \<open>c\<close> occurs in \<open>s\<close>, \<open>splitOnFirst\<close> returns a pair \<open>(a, b)\<close> where \<open>a\<close> holds no
  \<open>c\<close> and \<open>a\<close>, then \<open>c\<close>, then \<open>b\<close> make up \<open>s\<close>; if \<open>c\<close> does not occur, it returns \<open>s\<close>
  and the empty string.
\<close>

theorem splitOnFirst_spec:
  assumes "length s < npos"
  shows "(c \<in> set s \<longrightarrow>
           (\<exists>a b. splitOnFirst s c = Inr (a, b) \<and> c \<notin> set a \<and> a @ [c] @ b = s)) \<and>
         (c \<notin> set s \<longrightarrow> splitOnFirst s c = Inr (s, []))"
proof (intro conjI impI)
  assume "c \<in> set s"
  from splitOnFirst_present [OF this assms] obtain k where
    k: "k < length s" "s ! k = c" "c \<notin> set (take k s)"
       "splitOnFirst s c = Inr (take k s, drop (Suc k) s)"
    by blast
  have "take k s @ [c] @ drop (Suc k) s = s"
    using k(1,2) id_take_nth_drop [of k s] by simp
  with k(3,4) show "\<exists>a b. splitOnFirst s c = Inr (a, b) \<and> c \<notin> set a \<and> a @ [c] @ b = s"
    by blast
next
  assume "c \<notin> set s"
  then show "splitOnFirst s c = Inr (s, [])"
    by (rule splitOnFirst_absent)
qed

theorem splitOnFirst_spec_witness:
  "(\<exists>a b. splitOnFirst ''key=value=x'' (CHR ''='') = Inr (a, b) \<and> CHR ''='' \<notin> set a
      \<and> a @ [CHR ''=''] @ b = ''key=value=x'') \<and>
   splitOnFirst ''key=value=x'' (CHR '';'') = Inr (''key=value=x'', [])"
  using splitOnFirst_spec [of "''key=value=x''" "CHR ''=''"]
    splitOnFirst_spec [of "''key=value=x''" "CHR '';''"]
  by (simp add: npos_def)


section \<open>Matrix composition\<close>

lemma glm_translate_product: "glm_translate m v = mat_mul m (translation_matrix v)"
proof (cases m)
  case (Mat4 c0 c1 c2 c3)
  show ?thesis
    unfolding Mat4
    by (cases v; cases c0; cases c1; cases c2; cases c3) (simp add: translation_matrix_def)
qed

lemma glm_scale_identity: "glm_scale identity_mat4 v = scaling_matrix v"
  by (cases v) (simp add: identity_mat4_def scaling_matrix_def)

lemma mat_vec_mat_mul: "mat_vec (mat_mul a b) v = mat_vec a (mat_vec b v)"
proof (cases a)
  case A: (Mat4 a0 a1 a2 a3)
  show ?thesis
  proof (cases b)
    case B: (Mat4 b0 b1 b2 b3)
    show ?thesis
      unfolding A B
      by (cases v; cases a0; cases a1; cases a2; cases a3; cases b0; cases b1; cases b2; cases b3)
         (simp add: algebra_simps)
  qed
qed

lemma mat_mul_assoc: "mat_mul (mat_mul a b) c = mat_mul a (mat_mul b c)"
  by (cases c) (simp add: mat_vec_mat_mul)

text \<open>
  What \<open>createModelMatrix\<close> computes: \<open>glm_translate\<close> multiplies the translation on
  from the right, so the model matrix is the product of rotation, scaling and
  translation in this order, and it translates a vector first, scales it next and
  rotates it last.
\<close>

lemma createModelMatrix_product:
  "createModelMatrix t =
     mat_mul (mat_mul (toMat4 (rotation t)) (scaling_matrix (scale t)))
       (translation_matrix (position t))"
  by (simp add: createModelMatrix_def rotate_m4_def glm_translate_product glm_scale_identity)

lemma createModelMatrix_apply:
  "mat_vec (createModelMatrix t) v =
     mat_vec (toMat4 (rotation t))
       (mat_vec (scaling_matrix (scale t)) (mat_vec (translation_matrix (position t)) v))"
  by (simp add: createModelMatrix_product mat_vec_mat_mul)

text \<open>
  Claim C1 says that the model matrix scales first, rotates next and translates last.
  At position \<open>(1, 0, 0)\<close>, the identity rotation, scale \<open>(2, 2, 2)\<close> and the point
  \<open>(0, 0, 0, 1)\<close> the model matrix of the code yields \<open>(2, 0, 0, 1)\<close>, where the
  composition of the claim yields \<open>(1, 0, 0, 1)\<close>. Every number involved is a small
  integer, which \<^verbatim>\<open>float\<close> represents exactly.
\<close>

theorem createModelMatrix_order_evaluation:
  "mat_vec (createModelMatrix \<lparr>position = Vec3 1 0 0, rotation = Quat 1 0 0 0, scale = Vec3 2 2 2\<rparr>)
     (Vec4 0 0 0 1) = Vec4 2 0 0 1 \<and>
   mat_vec (translation_matrix (Vec3 1 0 0))
     (mat_vec (toMat4 (Quat 1 0 0 0)) (mat_vec (scaling_matrix (Vec3 2 2 2)) (Vec4 0 0 0 1))) =
     Vec4 1 0 0 1"
  by (simp add: createModelMatrix_def rotate_m4_def identity_mat4_def translation_matrix_def
      scaling_matrix_def)

lemma pMatrix_value:
  "pMatrix =
     Mat4 (Vec4 1 0 0 0) (Vec4 0 1 0 0) (Vec4 0 0 (- (1001 / 999)) (- 1))
       (Vec4 0 0 (- (200 / 999)) 0)"
proof -
  have "radians 90 / 2 = pi / 4" by (simp add: radians_def)
  then have "tan (radians 90 / 2) = 1" by (simp only: tan_45)
  then show ?thesis by (simp add: pMatrix_def perspective_def)
qed

text \<open>
  Claim C7. For every camera the view-projection matrix is the product of the
  projection, the rotation of the look direction and the translation by the negated
  position. The projection is the perspective projection of a vertical field of view of
  90 degrees, aspect ratio 1, near plane 0.1 and far plane 100: its focal factors are 1,
  and its depth row holds \<open>- (100 + 0.1) / (100 - 0.1)\<close> and
  \<open>- (2 * 100 * 0.1) / (100 - 0.1)\<close>.
\<close>

theorem calcVPMatrix_spec:
  "calcVPMatrix camera =
     mat_mul (mat_mul pMatrix (toMat4 (lookDirection camera)))
       (translation_matrix (v3_neg (cam_position camera))) \<and>
   pMatrix = perspective (radians 90) 1 0.1 100 \<and>
   pMatrix =
     Mat4 (Vec4 1 0 0 0) (Vec4 0 1 0 0) (Vec4 0 0 (- ((100 + 0.1) / (100 - 0.1))) (- 1))
       (Vec4 0 0 (- ((2 * 100 * 0.1) / (100 - 0.1))) 0)"
proof (intro conjI)
  show "calcVPMatrix camera =
     mat_mul (mat_mul pMatrix (toMat4 (lookDirection camera)))
       (translation_matrix (v3_neg (cam_position camera)))"
    by (simp add: calcVPMatrix_def glm_translate_product mat_mul_assoc)
  show "pMatrix = perspective (radians 90) 1 0.1 100"
    by (simp add: pMatrix_def)
  show "pMatrix =
     Mat4 (Vec4 1 0 0 0) (Vec4 0 1 0 0) (Vec4 0 0 (- ((100 + 0.1) / (100 - 0.1))) (- 1))
       (Vec4 0 0 (- ((2 * 100 * 0.1) / (100 - 0.1))) 0)"
    by (simp add: pMatrix_value)
qed

section \<open>The camera under the keys\<close>

text \<open>
  Claim C9. If none of the ten keys is held, \<open>updateCamera\<close> leaves the camera as it
  was: position and look direction are unchanged.
\<close>

theorem updateCamera_no_key:
  assumes "\<forall>k. \<not> key_held win k"
  shows "updateCamera win camera = camera"
  using assms by (simp add: updateCamera_def glfwGetKey_def Let_def)

theorem updateCamera_no_key_witness:
  "updateCamera \<lparr>should_close = False, key_held = (\<lambda>k. False), pending = []\<rparr>
     \<lparr>cam_position = Vec3 1 2 3, lookDirection = Quat 1 0 0 0\<rparr> =
   \<lparr>cam_position = Vec3 1 2 3, lookDirection = Quat 1 0 0 0\<rparr>"
  using updateCamera_no_key [of "\<lparr>should_close = False, key_held = (\<lambda>k. False), pending = []\<rparr>"
      "\<lparr>cam_position = Vec3 1 2 3, lookDirection = Quat 1 0 0 0\<rparr>"]
  by simp

text \<open>
  What each movement key does when it is the only key held: W and S move by \<open>0.05\<close>
  times the forward vector, Q and E by \<open>0.05\<close> times the up vector, A by \<open>0.05\<close> times
  the horizontal part of the right vector, and D by \<open>0.05\<close> times the whole right
  vector.
\<close>

lemma updateCamera_single_key:
  fixes win camera
  defines "axis v \<equiv> vec3_of_vec4 (rotate_q (inverse_q (lookDirection camera)) v)"
  shows "key_held win = (\<lambda>k. k = GLFW_KEY_W) \<Longrightarrow>
           updateCamera win camera = move camera (v3_scale 0.05 (axis (Vec4 0 0 (- 1) 1)))"
    and "key_held win = (\<lambda>k. k = GLFW_KEY_S) \<Longrightarrow>
           updateCamera win camera = move_back camera (v3_scale 0.05 (axis (Vec4 0 0 (- 1) 1)))"
    and "key_held win = (\<lambda>k. k = GLFW_KEY_Q) \<Longrightarrow>
           updateCamera win camera = move camera (v3_scale 0.05 (axis (Vec4 0 1 0 1)))"
    and "key_held win = (\<lambda>k. k = GLFW_KEY_E) \<Longrightarrow>
           updateCamera win camera = move_back camera (v3_scale 0.05 (axis (Vec4 0 1 0 1)))"
    and "key_held win = (\<lambda>k. k = GLFW_KEY_A) \<Longrightarrow>
           updateCamera win camera =
             move_back camera
               (v3_scale 0.05 (Vec3 (v3x (axis (Vec4 1 0 0 1))) 0 (v3z (axis (Vec4 1 0 0 1)))))"
    and "key_held win = (\<lambda>k. k = GLFW_KEY_D) \<Longrightarrow>
           updateCamera win camera = move camera (v3_scale 0.05 (axis (Vec4 1 0 0 1)))"
  by (simp_all add: updateCamera_def glfwGetKey_def Let_def axis_def)

text \<open>
  Claim C5 says that both strafe keys move along the horizontal part of the camera's
  right vector. For a camera rolled about its view axis (look direction
  \<open>Quat (3/5) 0 0 (4/5)\<close>, a unit quaternion) the right vector is \<open>(-0.28, -0.96, 0)\<close>.
  With only D held the position moves by \<open>0.05\<close> times this vector, its vertical part
  included; with only A held it moves by the horizontal part alone.
\<close>

theorem updateCamera_strafe_evaluation:
  "cam_position (updateCamera \<lparr>should_close = False, key_held = (\<lambda>k. k = GLFW_KEY_D), pending = []\<rparr>
     \<lparr>cam_position = Vec3 0 0 0, lookDirection = Quat (3 / 5) 0 0 (4 / 5)\<rparr>) =
     Vec3 (- (7 / 500)) (- (6 / 125)) 0 \<and>
   cam_position (updateCamera \<lparr>should_close = False, key_held = (\<lambda>k. k = GLFW_KEY_A), pending = []\<rparr>
     \<lparr>cam_position = Vec3 0 0 0, lookDirection = Quat (3 / 5) 0 0 (4 / 5)\<rparr>) =
     Vec3 (7 / 500) 0 0"
  by (simp add: updateCamera_def glfwGetKey_def Let_def move_def move_back_def inverse_q_def
      quat_vec3_def)


section \<open>Mesh construction\<close>

lemma new_calls_emit: "new_calls d (emit cs (fresh_names n d)) = cs"
  by (simp add: new_calls_def emit_def fresh_names_def)

lemma createMesh_new_calls:
  "new_calls d (snd (snd (createMesh vs is fmt h d))) =
     createMesh_calls (next_name d) (next_name d + 1) (next_name d + 2) vs is"
  by (simp add: createMesh_def Let_def new_calls_emit)

text \<open>
  Claim C2, amended. The layout \<open>createMesh\<close> registers has four attributes of
  \<open>4, 4, 2, 4\<close> floats at the byte offsets \<open>0, 16, 32, 40\<close>, which are the offsets of
  the four members of \<open>Vertex\<close>, and one vertex buffer whose stride is the size of
  \<open>Vertex\<close>: 56 bytes.
\<close>

theorem createMesh_layout:
  "attrib_formats (new_calls d (snd (snd (createMesh vs is fmt h d)))) =
     [(0, 4, GL_FLOAT, 0), (1, 4, GL_FLOAT, 16), (2, 2, GL_FLOAT, 32), (3, 4, GL_FLOAT, 40)] \<and>
   map (\<lambda>(i, n, ty, off). off)
     (attrib_formats (new_calls d (snd (snd (createMesh vs is fmt h d))))) = offsetof_Vertex \<and>
   vertex_strides (new_calls d (snd (snd (createMesh vs is fmt h d)))) = [sizeof_Vertex] \<and>
   sizeof_Vertex = 56"
  by (simp add: createMesh_new_calls createMesh_calls_def sizeof_Vertex_def sizeof_vec4_def
      sizeof_vec2_def sizeof_float_def offsetof_Vertex_def)

text \<open>
  Claim C2 as stated gives the stride as 48 bytes. The stride that \<open>createMesh\<close>
  registers for the empty mesh is not 48.
\<close>

theorem createMesh_stride_counterexample:
  "vertex_strides (new_calls driver0 (snd (snd (createMesh [] [] Triangles heap0 driver0)))) \<noteq> [48]"
  by (simp add: createMesh_new_calls createMesh_calls_def sizeof_Vertex_def sizeof_vec4_def
      sizeof_vec2_def sizeof_float_def)

text \<open>
  Claim C3, amended. \<open>createMesh\<close> checks nothing: for every vertex list, index list and
  topology it returns a pointer to a new mesh that holds exactly the vertices and
  indices given. The mesh satisfies the index invariant exactly when every given index
  is below the number of given vertices.
\<close>

theorem createMesh_unchecked:
  "\<exists>m. deref (meshes (fst (snd (createMesh vs is fmt h d)))) (fst (createMesh vs is fmt h d)) = Inr m \<and>
     vertices m = vs \<and> indices m = is \<and> primitiveFormat m = fmt \<and>
     mesh_invariant m = list_all (\<lambda>i. unat i < length vs) is"
  by (simp add: createMesh_def Let_def deref_def mesh_invariant_def)

text \<open>
  Claim C3 as stated says that an index list with an index at or above the vertex count
  is rejected. Given no vertex and the single index 0, \<open>createMesh\<close> returns a mesh, and
  the mesh violates the invariant.
\<close>

theorem createMesh_invariant_counterexample:
  "\<exists>m. deref (meshes (fst (snd (createMesh [] [0] Triangles heap0 driver0))))
          (fst (createMesh [] [0] Triangles heap0 driver0)) = Inr m \<and>
     \<not> mesh_invariant m"
  by (simp add: createMesh_def Let_def deref_def mesh_invariant_def heap0_def)


section \<open>Cloning a prefab\<close>

lemma clone_valid:
  assumes "a < length (gameObjects h)"
  shows "clone h (Some a) =
    Inr (Some (length (gameObjects h)), h\<lparr>gameObjects := gameObjects h @ [gameObjects h ! a]\<rparr>)"
  using assms by (simp add: clone_def deref_def)

lemma createGameObjects_loop_closed:
  assumes "a < length (gameObjects h)" and "count \<le> INT_MAX" and "i \<le> count"
    and "length gos = count" and "n = count - i"
  shows "createGameObjects_loop (Some a) count i gos h =
    Inr (take i gos @ map Some [length (gameObjects h) ..< length (gameObjects h) + n],
         h\<lparr>gameObjects := gameObjects h @ replicate n (gameObjects h ! a)\<rparr>)"
  using assms
proof (induction n arbitrary: i gos h)
  case 0
  then have "i = count" by simp
  with 0 show ?case by simp
next
  case (Suc n)
  let ?h = "h\<lparr>gameObjects := gameObjects h @ [gameObjects h ! a]\<rparr>"
  let ?gos = "gos[i := Some (length (gameObjects h))]"
  from Suc.prems have i: "i < count" "i \<noteq> INT_MAX" by simp_all
  have a': "a < length (gameObjects ?h)" using Suc.prems(1) by simp
  have obj: "gameObjects ?h ! a = gameObjects h ! a"
    using Suc.prems(1) by (simp add: nth_append)
  have IH: "createGameObjects_loop (Some a) count (i + 1) ?gos ?h =
    Inr (take (i + 1) ?gos @ map Some [length (gameObjects ?h) ..< length (gameObjects ?h) + n],
         ?h\<lparr>gameObjects := gameObjects ?h @ replicate n (gameObjects ?h ! a)\<rparr>)"
    using Suc.prems i by (intro Suc.IH [OF a']) simp_all
  have step: "createGameObjects_loop (Some a) count i gos h =
    createGameObjects_loop (Some a) count (i + 1) ?gos ?h"
    using i clone_valid [OF Suc.prems(1)] by (subst createGameObjects_loop.simps) simp
  have take: "take (i + 1) ?gos = take i gos @ [Some (length (gameObjects h))]"
    using i Suc.prems(4) by (simp add: take_Suc_conv_app_nth)
  have range: "[length (gameObjects h) ..< length (gameObjects h) + Suc n] =
    length (gameObjects h) # [Suc (length (gameObjects h)) ..< Suc (length (gameObjects h)) + n]"
    by (simp add: upt_rec)
  show ?case
    unfolding step IH take range obj
    by (simp add: replicate_app_Cons_same)
qed

lemma createGameObjects_closed:
  assumes "a < length (gameObjects h)" and "count \<le> INT_MAX"
  shows "createGameObjects h (Some a) count =
    Inr (map Some [length (gameObjects h) ..< length (gameObjects h) + count],
         h\<lparr>gameObjects := gameObjects h @ replicate count (gameObjects h ! a)\<rparr>)"
  using createGameObjects_loop_closed [OF assms, of 0 "replicate count None" count]
  by (simp add: createGameObjects_def)

lemma nth_append_replicate:
  assumes "g < length xs + n"
  shows "(xs @ replicate n x) ! g = (if g < length xs then xs ! g else x)"
  using assms by (simp add: nth_append)

text \<open>
  Within the range of the loop counter (an \<^verbatim>\<open>int\<close>) the clones are as claim C6
  describes them. For every prefab and every count up to \<open>INT_MAX\<close>,
  \<open>createGameObjects\<close> returns that many pointers to new game objects, all different
  and different from the prefab. It allocates no mesh and no material. Each clone
  holds a copy of the prefab's members: the same mesh pointer, the same material
  pointer, an equal transform. Assigning a transform through one clone changes that
  clone alone; every other clone and the prefab stay as they were. Assigning a colour
  to the prefab's material is seen through the prefab and through every clone.
\<close>

theorem createGameObjects_clones:
  assumes "a < length (gameObjects h)" and "count \<le> INT_MAX"
  shows "\<exists>gos h'. createGameObjects h (Some a) count = Inr (map Some gos, h') \<and>
     length gos = count \<and> distinct gos \<and> a \<notin> set gos \<and>
     meshes h' = meshes h \<and> materials h' = materials h \<and>
     (\<forall>g \<in> insert a (set gos). deref (gameObjects h') (Some g) = Inr (gameObjects h ! a)) \<and>
     (\<forall>g \<in> set gos. \<forall>t. \<exists>h''. assign_transform h' (Some g) t = Inr h'' \<and>
        deref (gameObjects h'') (Some g) = Inr ((gameObjects h ! a)\<lparr>transform := t\<rparr>) \<and>
        (\<forall>g' \<in> insert a (set gos). g' \<noteq> g \<longrightarrow>
           deref (gameObjects h'') (Some g') = Inr (gameObjects h ! a))) \<and>
     (\<forall>c m. deref (materials h) (material (meshRenderer (gameObjects h ! a))) = Inr m \<longrightarrow>
        (\<exists>h''. assign_color h' (material (meshRenderer (gameObjects h ! a))) c = Inr h'' \<and>
           (\<forall>g \<in> insert a (set gos). \<exists>obj. deref (gameObjects h'') (Some g) = Inr obj \<and>
              mesh (meshRenderer obj) = mesh (meshRenderer (gameObjects h ! a)) \<and>
              material (meshRenderer obj) = material (meshRenderer (gameObjects h ! a)) \<and>
              deref (materials h'') (material (meshRenderer obj)) = Inr (m\<lparr>color := c\<rparr>))))"
proof -
  let ?n = "length (gameObjects h)"
  let ?gos = "[?n ..< ?n + count]"
  let ?h' = "h\<lparr>gameObjects := gameObjects h @ replicate count (gameObjects h ! a)\<rparr>"
  have run: "createGameObjects h (Some a) count = Inr (map Some ?gos, ?h')"
    by (rule createGameObjects_closed [OF assms])
  have shape: "length ?gos = count" "distinct ?gos" "a \<notin> set ?gos"
    using assms(1) by simp_all
  have frame: "meshes ?h' = meshes h" "materials ?h' = materials h"
    by simp_all
  have copies: "\<forall>g \<in> insert a (set ?gos). deref (gameObjects ?h') (Some g) = Inr (gameObjects h ! a)"
    using assms(1) by (auto simp: deref_def nth_append)
  have transforms: "\<forall>g \<in> set ?gos. \<forall>t. \<exists>h''. assign_transform ?h' (Some g) t = Inr h'' \<and>
        deref (gameObjects h'') (Some g) = Inr ((gameObjects h ! a)\<lparr>transform := t\<rparr>) \<and>
        (\<forall>g' \<in> insert a (set ?gos). g' \<noteq> g \<longrightarrow>
           deref (gameObjects h'') (Some g') = Inr (gameObjects h ! a))"
    using assms(1) by (auto simp: assign_transform_def deref_def nth_append nth_list_update)
  have colours: "\<forall>c m. deref (materials h) (material (meshRenderer (gameObjects h ! a))) = Inr m \<longrightarrow>
        (\<exists>h''. assign_color ?h' (material (meshRenderer (gameObjects h ! a))) c = Inr h'' \<and>
           (\<forall>g \<in> insert a (set ?gos). \<exists>obj. deref (gameObjects h'') (Some g) = Inr obj \<and>
              mesh (meshRenderer obj) = mesh (meshRenderer (gameObjects h ! a)) \<and>
              material (meshRenderer obj) = material (meshRenderer (gameObjects h ! a)) \<and>
              deref (materials h'') (material (meshRenderer obj)) = Inr (m\<lparr>color := c\<rparr>)))"
    using assms(1)
    by (auto simp: assign_color_def deref_def nth_append split: option.splits if_splits)
  from run shape frame copies transforms colours show ?thesis
    by blast
qed

theorem createGameObjects_clones_witness:
  "0 < length (gameObjects heap1) \<and> 2 \<le> INT_MAX \<and>
   (\<exists>gos h'. createGameObjects heap1 (Some 0) 2 = Inr (map Some gos, h') \<and>
     length gos = 2 \<and> distinct gos \<and> 0 \<notin> set gos \<and>
     meshes h' = meshes heap1 \<and> materials h' = materials heap1 \<and>
     (\<forall>g \<in> insert 0 (set gos). deref (gameObjects h') (Some g) = Inr (gameObjects heap1 ! 0)) \<and>
     (\<forall>g \<in> set gos. \<forall>t. \<exists>h''. assign_transform h' (Some g) t = Inr h'' \<and>
        deref (gameObjects h'') (Some g) = Inr ((gameObjects heap1 ! 0)\<lparr>transform := t\<rparr>) \<and>
        (\<forall>g' \<in> insert 0 (set gos). g' \<noteq> g \<longrightarrow>
           deref (gameObjects h'') (Some g') = Inr (gameObjects heap1 ! 0))) \<and>
     (\<forall>c m. deref (materials heap1) (material (meshRenderer (gameObjects heap1 ! 0))) = Inr m \<longrightarrow>
        (\<exists>h''. assign_color h' (material (meshRenderer (gameObjects heap1 ! 0))) c = Inr h'' \<and>
           (\<forall>g \<in> insert 0 (set gos). \<exists>obj. deref (gameObjects h'') (Some g) = Inr obj \<and>
              mesh (meshRenderer obj) = mesh (meshRenderer (gameObjects heap1 ! 0)) \<and>
              material (meshRenderer obj) = material (meshRenderer (gameObjects heap1 ! 0)) \<and>
              deref (materials h'') (material (meshRenderer obj)) = Inr (m\<lparr>color := c\<rparr>)))))"
proof -
  have valid: "0 < length (gameObjects heap1)" by (simp add: heap1_def)
  have small: "2 \<le> INT_MAX" by (simp add: INT_MAX_def)
  from valid small createGameObjects_clones [OF valid small] show ?thesis
    by (intro conjI)
qed



lemma createGameObjects_loop_beyond:
  assumes "a < length (gameObjects h)" and "INT_MAX < count" and "i \<le> INT_MAX"
    and "n = INT_MAX - i"
  shows "createGameObjects_loop (Some a) count i gos h = Inl Undefined_behaviour"
  using assms
proof (induction n arbitrary: i gos h)
  case 0
  then have "i = INT_MAX" by simp
  with 0 clone_valid [OF "0.prems"(1)] show ?case
    by (subst createGameObjects_loop.simps) simp
next
  case (Suc n)
  let ?h = "h\<lparr>gameObjects := gameObjects h @ [gameObjects h ! a]\<rparr>"
  let ?gos = "gos[i := Some (length (gameObjects h))]"
  from Suc.prems have i: "i < count" "i \<noteq> INT_MAX" "i + 1 \<le> INT_MAX" "n = INT_MAX - (i + 1)"
    by simp_all
  have a': "a < length (gameObjects ?h)" using Suc.prems(1) by simp
  have "createGameObjects_loop (Some a) count i gos h =
    createGameObjects_loop (Some a) count (i + 1) ?gos ?h"
    using i clone_valid [OF Suc.prems(1)] by (subst createGameObjects_loop.simps) simp
  also have "\<dots> = Inl Undefined_behaviour"
    by (rule Suc.IH [OF a' Suc.prems(2) i(3,4)])
  finally show ?case .
qed

lemma createGameObjects_beyond:
  assumes "a < length (gameObjects h)" and "INT_MAX < count"
  shows "createGameObjects h (Some a) count = Inl Undefined_behaviour"
  unfolding createGameObjects_def
  by (rule createGameObjects_loop_beyond [OF assms]) simp_all

text \<open>
  Claim C6 speaks of every count. The count is a \<^verbatim>\<open>size_t\<close> and the loop counter an
  \<^verbatim>\<open>int\<close>: for a count above \<open>INT_MAX\<close> the loop reaches \<open>i = INT_MAX\<close> with clones
  still to make and increments \<open>i\<close> there, which has no defined result. For
  \<open>2 ^ 31\<close> clones of the one object of \<open>heap1\<close>, \<open>createGameObjects\<close> returns no
  list of clones.
\<close>

theorem createGameObjects_overflow_evaluation:
  "createGameObjects heap1 (Some 0) 2147483648 = Inl Undefined_behaviour"
  by (rule createGameObjects_beyond) (simp_all add: heap1_def INT_MAX_def)


section \<open>The render loop\<close>

lemma to_GLsizei_small:
  assumes "n \<le> INT_MAX"
  shows "to_GLsizei n = int n"
proof -
  have "(word_of_nat n :: 32 word) = word_of_int (int n)" by simp
  then have "to_GLsizei n = (int n + 2 ^ 31) mod 2 ^ 32 - 2 ^ 31"
    by (simp only: to_GLsizei_def int_word_sint) simp
  with assms show ?thesis by (simp add: INT_MAX_def)
qed

text \<open>
  The loop itself, seen on a scene without objects: it polls, updates the camera from
  the keys held after the poll, clears the three buffers and swaps, once for every poll
  until the one that brings the close request, and then returns.
\<close>

lemma updateCamera_holding: "updateCamera win camera = updateCamera (holding (key_held win)) camera"
  by (simp add: updateCamera_def glfwGetKey_def holding_def)

lemma emit_emit: "emit bs (emit as d) = emit (as @ bs) d"
  by (simp add: emit_def)

lemma main_loop_closed:
  assumes "should_close win"
  shows "main_loop h objs win camera d = Some (Inr (win, camera, emit [WindowShouldClose] d))"
  using assms by (subst main_loop.simps) (simp add: glfwWindowShouldClose_def)

lemma main_loop_empty_frame:
  assumes "\<not> should_close win" and "pending win = (cl, ks) # rest"
  shows "main_loop h [] win camera d =
    main_loop h [] \<lparr>should_close = cl, key_held = ks, pending = rest\<rparr>
      (updateCamera (holding ks) camera) (emit empty_frame_calls d)"
proof -
  let ?win = "\<lparr>should_close = cl, key_held = ks, pending = rest\<rparr>"
  have poll: "glfwPollEvents win = ?win"
    using assms by (simp add: glfwPollEvents_def)
  have cam: "updateCamera ?win camera = updateCamera (holding ks) camera"
    by (subst updateCamera_holding) simp
  show ?thesis
    using assms(1)
    by (subst main_loop.simps)
       (simp add: glfwWindowShouldClose_def poll cam Let_def emit_emit empty_frame_calls_def)
qed

lemma main_loop_empty_scene:
  assumes "\<not> should_close win" and "pending win = map (Pair False) kss @ (True, ks) # rest"
  shows "main_loop h [] win camera d =
    Some (Inr (\<lparr>should_close = True, key_held = ks, pending = rest\<rparr>,
               foldl (\<lambda>c k. updateCamera (holding k) c) camera (kss @ [ks]),
               emit (concat (replicate (Suc (length kss)) empty_frame_calls) @
                     [WindowShouldClose]) d))"
  using assms
proof (induction kss arbitrary: win camera d)
  case Nil
  then have pending: "pending win = (True, ks) # rest" by simp
  show ?case
    unfolding main_loop_empty_frame [OF Nil(1) pending]
    by (simp add: main_loop_closed emit_emit)
next
  case (Cons k kss)
  let ?win = "\<lparr>should_close = False, key_held = k, pending = map (Pair False) kss @ (True, ks) # rest\<rparr>"
  from Cons.prems have pending: "pending win = (False, k) # map (Pair False) kss @ (True, ks) # rest"
    by simp
  have IH: "main_loop h [] ?win (updateCamera (holding k) camera) (emit empty_frame_calls d) =
    Some (Inr (\<lparr>should_close = True, key_held = ks, pending = rest\<rparr>,
               foldl (\<lambda>c k. updateCamera (holding k) c) (updateCamera (holding k) camera) (kss @ [ks]),
               emit (concat (replicate (Suc (length kss)) empty_frame_calls) @
                     [WindowShouldClose]) (emit empty_frame_calls d)))"
    by (rule Cons.IH) simp_all
  show ?case
    unfolding main_loop_empty_frame [OF Cons.prems(1) pending] IH
    by (simp add: emit_emit)
qed

text \<open>
  Drawing an object. \<open>applyMaterial\<close> hands the driver a pointer to the colour of the
  material, which is alive. \<open>applyTransform\<close> and \<open>applyCamera\<close> hand it a pointer
  into a matrix that was destroyed with the statement before: the driver's read has no
  defined result, whatever the object, the camera and the driver are.
\<close>

lemma deref_failure: "deref store p = Inl x \<Longrightarrow> x = Undefined_behaviour"
  by (auto simp: deref_def split: option.splits if_splits)

lemma applyMaterial_failure: "applyMaterial h mat d = Inl x \<Longrightarrow> x = Undefined_behaviour"
  by (auto simp: applyMaterial_def glUniform4fv_def split: sum.splits dest: deref_failure)

lemma applyTransform_undefined: "applyTransform h go d = Inl Undefined_behaviour"
  by (auto simp: applyTransform_def glUniformMatrix4fv_def statement_ended_def Let_def
      split: sum.splits dest: deref_failure)

lemma applyCamera_undefined: "applyCamera h camera go d = Inl Undefined_behaviour"
  by (auto simp: applyCamera_def glUniformMatrix4fv_def statement_ended_def Let_def
      split: sum.splits dest: deref_failure)

lemma renderGameObject_undefined: "renderGameObject h camera go d = Inl Undefined_behaviour"
  by (auto simp: renderGameObject_def applyTransform_undefined
      split: sum.splits dest: deref_failure applyMaterial_failure)

lemma renderGameObjects_undefined:
  "renderGameObjects h camera (go # objs) d = Inl Undefined_behaviour"
  by (simp add: renderGameObject_undefined)

lemma main_loop_undefined:
  assumes "\<not> should_close win"
  shows "main_loop h (go # objs) win camera d = Some (Inl Undefined_behaviour)"
  using assms
  by (subst main_loop.simps)
     (simp add: glfwWindowShouldClose_def Let_def renderGameObject_undefined)

text \<open>
  Claim C8 says that every iteration of the loop sets \<open>uColor\<close>, \<open>uModel\<close> and
  \<open>uViewProjection\<close> and issues one draw call for each game object, and presents the
  frame. For the scene of \<open>heap1\<close> (one game object with its mesh, material and shader
  program) and a window that is not closed, the first iteration does not get that far:
  \<open>uColor\<close> is set, and the setting of \<open>uModel\<close> reads through a dangling pointer, as
  the setting of \<open>uViewProjection\<close> would. The loop has no defined result.
\<close>

theorem main_loop_dangling_evaluation:
  "main_loop heap1 [Some 0] window1 \<lparr>cam_position = Vec3 0 0 0, lookDirection = Quat 1 0 0 0\<rparr>
     driver0 = Some (Inl Undefined_behaviour) \<and>
   applyTransform heap1 (Some 0) driver0 = Inl Undefined_behaviour \<and>
   applyCamera heap1 \<lparr>cam_position = Vec3 0 0 0, lookDirection = Quat 1 0 0 0\<rparr> (Some 0) driver0 =
     Inl Undefined_behaviour \<and>
   applyMaterial heap1 (Some 0) driver0 =
     Inr (emit [UseProgram 7, GetUniformLocation 7 ''uColor'', Uniform4fv 0 1 (Vec4 1 0 0 (1 / 2))]
            driver0)"
proof (intro conjI)
  have "\<not> should_close window1" by (simp add: window1_def)
  then show "main_loop heap1 [Some 0] window1
      \<lparr>cam_position = Vec3 0 0 0, lookDirection = Quat 1 0 0 0\<rparr> driver0 =
      Some (Inl Undefined_behaviour)"
    by (rule main_loop_undefined)
  show "applyTransform heap1 (Some 0) driver0 = Inl Undefined_behaviour"
    by (simp add: applyTransform_def deref_def heap1_def glUniformMatrix4fv_def
        statement_ended_def)
  show "applyCamera heap1 \<lparr>cam_position = Vec3 0 0 0, lookDirection = Quat 1 0 0 0\<rparr> (Some 0)
      driver0 = Inl Undefined_behaviour"
    by (simp add: applyCamera_def deref_def heap1_def glUniformMatrix4fv_def
        statement_ended_def)
  show "applyMaterial heap1 (Some 0) driver0 =
     Inr (emit [UseProgram 7, GetUniformLocation 7 ''uColor'', Uniform4fv 0 1 (Vec4 1 0 0 (1 / 2))]
            driver0)"
    by (simp add: applyMaterial_def deref_def heap1_def glUniform4fv_def driver0_def emit_def)
qed


section \<open>Shader headers\<close>

declare lStripNewlines_loop.simps [simp del]
declare stripWhitespace_start.simps [simp del]
declare stripWhitespace_end.simps [simp del]

lemma subscript_inside: "i < length s \<Longrightarrow> subscript s i = Inr (s ! i)"
  by (simp add: subscript_def)

lemma subscript_end: "subscript s (length s) = Inr (CHR 0x00)"
  by (simp add: subscript_def)

lemma drop_dropWhile_length:
  "drop (length xs - length (dropWhile P xs)) xs = dropWhile P xs"
proof -
  have "length (takeWhile P xs) + length (dropWhile P xs) = length xs"
    by (metis length_append takeWhile_dropWhile_id)
  then have "length xs - length (dropWhile P xs) = length (takeWhile P xs)" by simp
  then show ?thesis by (simp add: dropWhile_eq_drop)
qed

lemma lStripNewlines_loop_spec:
  assumes "i < length s"
  shows "lStripNewlines_loop s i (s ! i) = Inr (dropWhile isWhiteSpace (drop i s))"
  using assms
proof (induction "length s - i" arbitrary: i)
  case 0
  then show ?case by simp
next
  case (Suc n)
  have unfold: "drop i s = s ! i # drop (Suc i) s"
    using Suc.prems by (simp add: Cons_nth_drop_Suc)
  show ?case
  proof (cases "isWhiteSpace (s ! i)")
    case False
    then show ?thesis
      using Suc.prems unfold
      by (subst lStripNewlines_loop.simps) (simp add: substr_from_def)
  next
    case ws: True
    show ?thesis
    proof (cases "Suc i < length s")
      case True
      from Suc.hyps(2) have "n = length s - Suc i" by simp
      from Suc.hyps(1) [OF this True] ws True unfold show ?thesis
        by (subst lStripNewlines_loop.simps) (simp add: subscript_inside)
    next
      case False
      with Suc.prems have "Suc i = length s" by simp
      with ws unfold show ?thesis
        by (subst lStripNewlines_loop.simps) (simp add: subscript_def)
    qed
  qed
qed

lemma lStripNewlines_spec: "lStripNewlines s = Inr (dropWhile isWhiteSpace s)"
proof (cases s)
  case Nil
  then show ?thesis
    by (simp add: lStripNewlines_def subscript_def isWhiteSpace_def substr_from_def
        lStripNewlines_loop.simps)
next
  case (Cons c cs)
  then have "0 < length s" by simp
  from lStripNewlines_loop_spec [OF this] show ?thesis
    by (simp add: lStripNewlines_def subscript_def Cons)
qed

lemma stripWhitespace_start_spec:
  assumes "i < length s"
  shows "stripWhitespace_start s i (s ! i) =
    Inr (if dropWhile isWhiteSpace (drop i s) = [] then None
         else Some (length s - length (dropWhile isWhiteSpace (drop i s))))"
  using assms
proof (induction "length s - i" arbitrary: i)
  case 0
  then show ?case by simp
next
  case (Suc n)
  have unfold: "drop i s = s ! i # drop (Suc i) s"
    using Suc.prems by (simp add: Cons_nth_drop_Suc)
  show ?case
  proof (cases "isWhiteSpace (s ! i)")
    case False
    then show ?thesis
      using Suc.prems unfold
      by (subst stripWhitespace_start.simps) simp
  next
    case ws: True
    show ?thesis
    proof (cases "Suc i < length s")
      case True
      from Suc.hyps(2) have "n = length s - Suc i" by simp
      from Suc.hyps(1) [OF this True] ws True unfold show ?thesis
        by (subst stripWhitespace_start.simps) (simp add: subscript_inside)
    next
      case False
      with Suc.prems have "Suc i = length s" by simp
      with ws unfold show ?thesis
        by (subst stripWhitespace_start.simps) (simp add: subscript_def)
    qed
  qed
qed

lemma stripWhitespace_end_spec:
  assumes "e < length r" and "\<not> isWhiteSpace (r ! 0)"
  shows "stripWhitespace_end r e (r ! e) =
    Inr (if \<not> isWhiteSpace (r ! e) then take (Suc e) r
         else (let core = rev (dropWhile isWhiteSpace (rev (take e r)))
               in if length core \<le> 1 then [] else core))"
  using assms(1)
proof (induction e)
  case 0
  with assms(2) show ?case
    by (subst stripWhitespace_end.simps) (simp add: substr_def)
next
  case (Suc e)
  then have e: "e < length r" by simp
  have dec: "size_t_dec (Suc e) = e" by (simp add: size_t_dec_def)
  have take: "take (Suc e) r = take e r @ [r ! e]"
    using e by (simp add: take_Suc_conv_app_nth)
  show ?case
  proof (cases "isWhiteSpace (r ! Suc e)")
    case False
    then show ?thesis
      using Suc.prems by (subst stripWhitespace_end.simps) (simp add: substr_def)
  next
    case ws: True
    show ?thesis
    proof (cases e)
      case 0
      with ws e assms(2) show ?thesis
        by (subst stripWhitespace_end.simps)
           (simp add: size_t_dec_def subscript_inside take_Suc_conv_app_nth)
    next
      case (Suc e')
      then have pos: "e \<noteq> 0" by simp
      have len: "length (take e r) = e" using e by simp
      have step: "stripWhitespace_end r (Suc e) (r ! Suc e) = stripWhitespace_end r e (r ! e)"
        using ws e pos by (subst stripWhitespace_end.simps) (simp add: dec subscript_inside)
      show ?thesis
      proof (cases "isWhiteSpace (r ! e)")
        case True
        with ws show ?thesis
          unfolding step Suc.IH [OF e] by (simp add: take)
      next
        case False
        with ws pos e show ?thesis
          unfolding step Suc.IH [OF e] by (simp add: take)
      qed
    qed
  qed
qed

lemma stripWhitespace_spec:
  "stripWhitespace t = (if t = [] then Inl Undefined_behaviour else Inr (trimmed t))"
proof (cases "t = []")
  case True
  then show ?thesis
    by (simp add: stripWhitespace_def subscript_def isWhiteSpace_def substr_from_def
        size_t_dec_def npos_def stripWhitespace_start.simps)
next
  case False
  let ?r = "dropWhile isWhiteSpace t"
  from False have pos: "0 < length t" by simp
  have sub: "subscript t 0 = Inr (t ! 0)" using pos by (simp add: subscript_def)
  note start = stripWhitespace_start_spec [OF pos]
  show ?thesis
  proof (cases "?r = []")
    case True
    then have "dropWhile isWhiteSpace (drop 0 t) = []" by simp
    then have st: "stripWhitespace_start t 0 (t ! 0) = Inr None"
      by (simp only: start) simp
    have tr: "trimmed t = []"
      unfolding trimmed_def True by simp
    show ?thesis
      using False by (simp add: stripWhitespace_def sub st tr)
  next
    case r: False
    let ?e = "length ?r - 1"
    from r have e: "?e < length ?r" by simp
    have hd: "\<not> isWhiteSpace (?r ! 0)"
      using r hd_dropWhile [of isWhiteSpace t] by (simp add: hd_conv_nth)
    have dec: "size_t_dec (length ?r) = ?e"
      using r by (auto simp: size_t_dec_def)
    have last: "?r ! ?e = last ?r" using r by (simp add: last_conv_nth)
    have butlast: "take ?e ?r = butlast ?r" by (simp add: butlast_conv_take)
    have whole: "take (Suc ?e) ?r = ?r" using r by simp
    have st: "stripWhitespace_start t 0 (t ! 0) = Inr (Some (length t - length ?r))"
      unfolding start drop_0 by (simp only: r if_False)
    have "\<not> length t < length t - length ?r" by simp
    then have sf: "substr_from t (length t - length ?r) = Inr ?r"
      by (simp only: substr_from_def drop_dropWhile_length if_False)
    have sb: "subscript ?r ?e = Inr (?r ! ?e)"
      using e by (rule subscript_inside)
    have strip: "stripWhitespace t = stripWhitespace_end ?r ?e (?r ! ?e)"
      by (simp only: stripWhitespace_def sub st sf dec sb sum.case option.case)
    have core: "rev (dropWhile isWhiteSpace (rev ?r)) =
        (if isWhiteSpace (last ?r) then rev (dropWhile isWhiteSpace (rev (butlast ?r))) else ?r)"
      using r by (cases ?r rule: rev_cases) simp_all
    have "stripWhitespace t =
        Inr (if \<not> isWhiteSpace (?r ! ?e) then take (Suc ?e) ?r
             else (let core = rev (dropWhile isWhiteSpace (rev (take ?e ?r)))
                   in if length core \<le> 1 then [] else core))"
      unfolding strip by (rule stripWhitespace_end_spec [OF e hd])
    then have res: "stripWhitespace t =
        Inr (if \<not> isWhiteSpace (last ?r) then ?r
             else (let core = rev (dropWhile isWhiteSpace (rev (butlast ?r)))
                   in if length core \<le> 1 then [] else core))"
      unfolding last butlast whole .
    show ?thesis
    proof (cases "isWhiteSpace (last ?r)")
      case True
      with core have "rev (dropWhile isWhiteSpace (rev ?r)) =
          rev (dropWhile isWhiteSpace (rev (butlast ?r)))"
        by simp
      then show ?thesis
        unfolding res trimmed_def Let_def using False r True by simp
    next
      case ends: False
      with core have "rev (dropWhile isWhiteSpace (rev ?r)) = ?r" by simp
      then show ?thesis
        unfolding res trimmed_def Let_def using False r ends by simp
    qed
  qed
qed

lemma splitFirstLine_spec:
  assumes "length s < npos"
  shows "splitFirstLine s =
    Inr (takeWhile (\<lambda>c. c \<noteq> CHR 0x0A) s, drop 1 (dropWhile (\<lambda>c. c \<noteq> CHR 0x0A) s))"
proof (cases "CHR 0x0A \<in> set s")
  case True
  from splitOnFirst_present [OF True assms] obtain k where
    k: "k < length s" "s ! k = CHR 0x0A" "CHR 0x0A \<notin> set (take k s)"
       "splitOnFirst s (CHR 0x0A) = Inr (take k s, drop (Suc k) s)"
    by blast
  have s: "s = take k s @ CHR 0x0A # drop (Suc k) s"
    using k(1,2) id_take_nth_drop [of k s] by simp
  have "takeWhile (\<lambda>c. c \<noteq> CHR 0x0A) (take k s @ CHR 0x0A # drop (Suc k) s) = take k s"
    using k(3) by (auto simp: takeWhile_tail)
  moreover have "dropWhile (\<lambda>c. c \<noteq> CHR 0x0A) (take k s @ CHR 0x0A # drop (Suc k) s) =
      dropWhile (\<lambda>c. c \<noteq> CHR 0x0A) (CHR 0x0A # drop (Suc k) s)"
    using k(3) by (intro dropWhile_append2) auto
  ultimately have "takeWhile (\<lambda>c. c \<noteq> CHR 0x0A) s = take k s"
      "drop 1 (dropWhile (\<lambda>c. c \<noteq> CHR 0x0A) s) = drop (Suc k) s"
    using s by simp_all
  with k(4) show ?thesis by (simp add: splitFirstLine_def)
next
  case False
  then have tw: "takeWhile (\<lambda>c. c \<noteq> CHR 0x0A) s = s"
    and dw: "dropWhile (\<lambda>c. c \<noteq> CHR 0x0A) s = []"
    by (auto simp: takeWhile_eq_all_conv)
  show ?thesis
    unfolding splitFirstLine_def splitOnFirst_absent [OF False] tw dw by simp
qed

lemma createShader_spec:
  assumes "length (readFile path) < npos"
  shows "createShader readFile path d =
    (if \<not> starts_with (header_line (readFile path)) ''#type '' then
       Inl (Runtime_error (''Failed to read shader '' @ path))
     else if drop 6 (header_line (readFile path)) = [] then Inl Undefined_behaviour
     else
       (case sTypeFromName (trimmed (drop 6 (header_line (readFile path)))) of
          Inl x \<Rightarrow> Inl x
        | Inr stype \<Rightarrow> compileShader path stype (shader_body (readFile path)) d))"
proof -
  let ?s = "dropWhile isWhiteSpace (readFile path)"
  let ?l = "header_line (readFile path)"
  have "length ?s \<le> length (readFile path)" by (rule length_dropWhile_le)
  with assms have short: "length ?s < npos" by simp
  have split: "splitFirstLine ?s = Inr (?l, shader_body (readFile path))"
    unfolding header_line_def shader_body_def by (rule splitFirstLine_spec [OF short])
  have start: "createShader readFile path d =
    (if \<not> starts_with ?l ''#type '' then Inl (Runtime_error (''Failed to read shader '' @ path))
     else
       (case substr_from ?l 6 of
          Inl x \<Rightarrow> Inl x
        | Inr rest \<Rightarrow>
            (case stripWhitespace rest of
               Inl x \<Rightarrow> Inl x
             | Inr type \<Rightarrow>
                 (case sTypeFromName type of
                    Inl x \<Rightarrow> Inl x
                  | Inr stype \<Rightarrow> compileShader path stype (shader_body (readFile path)) d))))"
    by (simp add: createShader_def lStripNewlines_spec split)
  show ?thesis
  proof (cases "starts_with ?l ''#type ''")
    case False
    then show ?thesis unfolding start by simp
  next
    case True
    then have "take (length ''#type '') ?l = ''#type ''"
      unfolding starts_with_def .
    then have "length (take (length ''#type '') ?l) = length ''#type ''"
      by (rule arg_cong)
    then have "6 \<le> length ?l" by simp
    then have rest: "substr_from ?l 6 = Inr (drop 6 ?l)"
      by (simp add: substr_from_def)
    show ?thesis
      unfolding start rest stripWhitespace_spec using True by simp
  qed
qed

lemma tolower_isWhiteSpace:
  assumes "isWhiteSpace c"
  shows "tolower c = c"
proof -
  from assms consider "c = CHR '' ''" | "c = CHR 0x0A" | "c = CHR 0x0D" | "c = CHR 0x09"
    unfolding isWhiteSpace_def by blast
  then show ?thesis
    by cases (simp_all add: tolower_def)
qed

lemma sTypeFromName_names:
  assumes "sTypeFromName name = Inr stype"
  shows "s2lower name \<in> {''vertex'', ''fragment'', ''compute'', ''geometry'',
           ''tess-control'', ''tess-evaluation''}"
  using assms by (auto simp: sTypeFromName_def Let_def split: if_splits)

lemma sTypeFromName_no_blank:
  assumes "sTypeFromName name = Inr stype" and "c \<in> set name"
  shows "\<not> isWhiteSpace c"
proof
  assume ws: "isWhiteSpace c"
  with assms(2) have "c \<in> set (s2lower name)"
    using tolower_isWhiteSpace [OF ws] by (force simp: s2lower_def)
  with sTypeFromName_names [OF assms(1)] ws show False
    by (auto simp: isWhiteSpace_def)
qed

lemma sTypeFromName_length:
  assumes "sTypeFromName name = Inr stype"
  shows "2 \<le> length name"
proof -
  have "length (s2lower name) = length name" by (simp add: s2lower_def)
  with sTypeFromName_names [OF assms] show ?thesis by auto
qed

lemma trimmed_surrounded:
  assumes "\<forall>c\<in>set ws1. isWhiteSpace c" and "\<forall>c\<in>set ws2. isWhiteSpace c"
    and "\<forall>c\<in>set name. \<not> isWhiteSpace c" and "2 \<le> length name"
  shows "trimmed (ws1 @ name @ ws2) = name"
proof -
  from assms(4) obtain n ns where name: "name = n # ns" by (cases name) auto
  from assms(4) have "name \<noteq> []" by auto
  then obtain ms m where rname: "name = ms @ [m]" by (cases name rule: rev_cases) auto
  have n: "\<not> isWhiteSpace n" using assms(3) name by simp
  have m: "\<not> isWhiteSpace m" using assms(3) rname by simp
  have front: "dropWhile isWhiteSpace (ws1 @ name @ ws2) = name @ ws2"
    using assms(1) n by (simp add: dropWhile_append2 name)
  have "dropWhile isWhiteSpace (rev ws2 @ rev name) = dropWhile isWhiteSpace (rev name)"
    using assms(2) by (intro dropWhile_append2) simp
  also have "\<dots> = rev name" using m by (simp add: rname)
  finally have core: "rev (dropWhile isWhiteSpace (rev (name @ ws2))) = name" by simp
  show ?thesis
    unfolding trimmed_def front Let_def core using assms(4) by simp
qed

lemma createShader_valid_header:
  assumes lead: "\<forall>c\<in>set lead. isWhiteSpace c"
    and ws1: "\<forall>c\<in>set ws1. isWhiteSpace c" "CHR 0x0A \<notin> set ws1"
    and ws2: "\<forall>c\<in>set ws2. isWhiteSpace c" "CHR 0x0A \<notin> set ws2"
    and name: "sTypeFromName name = Inr stype"
    and contents: "readFile path = lead @ ''#type '' @ ws1 @ name @ ws2 @ rest"
    and rest: "rest = [] \<or> hd rest = CHR 0x0A"
    and short: "length (readFile path) < npos"
  shows "createShader readFile path d = compileShader path stype (drop 1 rest) d"
proof -
  let ?line = "''#type '' @ ws1 @ name @ ws2"
  have blank: "\<forall>c\<in>set name. \<not> isWhiteSpace c"
    using sTypeFromName_no_blank [OF name] by blast
  then have "CHR 0x0A \<notin> set name" by (auto simp: isWhiteSpace_def)
  with ws1(2) ws2(2) have nl: "\<forall>c\<in>set ?line. c \<noteq> CHR 0x0A" by auto
  have "dropWhile isWhiteSpace (lead @ ?line @ rest) = dropWhile isWhiteSpace (?line @ rest)"
    using lead by (intro dropWhile_append2) simp
  then have stripped: "dropWhile isWhiteSpace (readFile path) = ?line @ rest"
    by (simp add: contents isWhiteSpace_def)
  have "takeWhile (\<lambda>c. c \<noteq> CHR 0x0A) (?line @ rest) = ?line"
  proof (cases rest)
    case Nil
    with nl show ?thesis by (simp only: append_Nil2 takeWhile_eq_all_conv)
  next
    case (Cons r rs)
    with rest have "rest = CHR 0x0A # rs" by simp
    with nl show ?thesis by (simp only: takeWhile_tail takeWhile_eq_all_conv simp_thms)
  qed
  then have line: "header_line (readFile path) = ?line"
    by (simp only: header_line_def stripped)
  have "dropWhile (\<lambda>c. c \<noteq> CHR 0x0A) (?line @ rest) = dropWhile (\<lambda>c. c \<noteq> CHR 0x0A) rest"
    using nl by (intro dropWhile_append2) blast
  also have "\<dots> = rest" using rest by (cases rest) auto
  finally have body: "shader_body (readFile path) = drop 1 rest"
    by (simp only: shader_body_def stripped)
  have header: "starts_with ?line ''#type ''"
    by (simp add: starts_with_def)
  have arg: "drop 6 ?line = ws1 @ name @ ws2" by simp
  have nonempty: "ws1 @ name @ ws2 \<noteq> []"
    using sTypeFromName_length [OF name] by auto
  have trim: "trimmed (ws1 @ name @ ws2) = name"
    by (rule trimmed_surrounded [OF ws1(1) ws2(1) blank sTypeFromName_length [OF name]])
  show ?thesis
    unfolding createShader_spec [of readFile path, OF short] line body arg trim name
    using header nonempty by auto
qed

text \<open>
  Claim C4 says that every first line other than a well-formed header makes
  \<open>createShader\<close> fail with a malformed-header or an unknown-type error. By
  \<open>createShader_spec\<close> this is so with one exception. A file whose first line is
  \<open>#type\<close> and one blank, with no name after it, passes the header test; the rest of
  the line is the empty string, for which \<open>stripWhitespace\<close> computes the index
  \<open>size - 1\<close> of an empty string and reads there, far beyond its end. The result is
  neither of the two errors: it is not defined. For a well-formed header
  (\<open>createShader_valid_header\<close>) the stage type and the body are as the claim says.
\<close>

theorem createShader_empty_name_evaluation:
  "createShader (\<lambda>path. ''#type '' @ [CHR 0x0A] @ ''void main() {}'') ''test.glsl'' driver0 =
     Inl Undefined_behaviour \<and>
   stripWhitespace [] = Inl Undefined_behaviour"
  by (simp add: createShader_def lStripNewlines_def splitFirstLine_def splitOnFirst_def
      splitAt_def find_first_of_def starts_with_def stripWhitespace_def subscript_def
      substr_from_def substr_def size_t_dec_def npos_def isWhiteSpace_def
      lStripNewlines_loop.simps stripWhitespace_start.simps stripWhitespace_end.simps)

end
